theory Spec2Isabelle
  imports Main "HOL-Library.Word"
begin

section \<open>IR types (WAVM/IR, declarations only referenced by wavm-run.cpp)\<close>

text \<open>
  Modelled from the spec: the headers under WAVM/IR are not part of the sources at hand.
  The spec's data model names the closed set of extern kinds (function, memory, table,
  global, exception tag) and their structural signatures; \<open>ExternKind_invalid\<close> stands
  for a kind outside that set (the kind of a default-constructed \<open>ExternType\<close>), which is
  what the \<open>default:\<close> branch of \<open>getStubObject\<close> is there for.
\<close>

datatype ValueType = i32 | i64 | f32 | f64 | v128 | anyref | funcref

type_synonym TypeTuple = "ValueType list"

record FunctionType =
  results :: TypeTuple
  params :: TypeTuple

record SizeConstraints =
  sizeMin :: "64 word"
  sizeMax :: "64 word"

record TableType =
  elementType :: ValueType
  tableIsShared :: bool
  tableSize :: SizeConstraints

record MemoryType =
  memoryIsShared :: bool
  memorySize :: SizeConstraints

record GlobalType =
  valueType :: ValueType
  isMutable :: bool

record ExceptionType =
  exceptionParams :: TypeTuple

datatype ExternKind =
  ExternKind_invalid
  | ExternKind_function
  | ExternKind_table
  | ExternKind_memory
  | ExternKind_global
  | ExternKind_exceptionType

datatype ExternType =
  ExternInvalid
  | ExternFunction FunctionType
  | ExternTable TableType
  | ExternMemory MemoryType
  | ExternGlobal GlobalType
  | ExternException ExceptionType

fun kind :: "ExternType \<Rightarrow> ExternKind" where
  "kind ExternInvalid = ExternKind_invalid"
| "kind (ExternFunction _) = ExternKind_function"
| "kind (ExternTable _) = ExternKind_table"
| "kind (ExternMemory _) = ExternKind_memory"
| "kind (ExternGlobal _) = ExternKind_global"
| "kind (ExternException _) = ExternKind_exceptionType"

text \<open>
  \<open>IR::UntaggedValue\<close> is a 16-byte union; its default constructor clears every byte.
  \<open>IR::Value\<close> adds the type tag. The \<open>i32\<close> member of the union is its low 32 bits
  (the targets of the engine are little-endian).
\<close>

type_synonym UntaggedValue = "128 word"

definition UntaggedValue_default :: UntaggedValue where
  "UntaggedValue_default = 0"

record Value =
  valueTag :: ValueType
  untagged :: UntaggedValue

definition mkValue :: "ValueType \<Rightarrow> UntaggedValue \<Rightarrow> Value" where
  "mkValue t u = \<lparr>valueTag = t, untagged = u\<rparr>"

definition value_i32 :: "Value \<Rightarrow> 32 word" where
  "value_i32 v = ucast (untagged v)"

type_synonym ValueTuple = "Value list"

text \<open>
  The operator stream written by \<open>OperatorEncoderStream\<close>: the source emits two
  operators only. Each encoder call appends one operator to the stream.
\<close>

datatype Operator = Op_unreachable | Op_end

definition encoder_unreachable :: "Operator list \<Rightarrow> Operator list" where
  "encoder_unreachable codeStream = codeStream @ [Op_unreachable]"

definition encoder_end :: "Operator list \<Rightarrow> Operator list" where
  "encoder_end codeStream = codeStream @ [Op_end]"

record FunctionDef =
  typeIndex :: nat
  nonParameterLocalTypes :: "ValueType list"
  code :: "Operator list"
  branchTables :: "nat list list"

record Export =
  exportedName :: string
  exportedKind :: ExternKind
  exportedIndex :: nat

record Import =
  importModuleName :: string
  importExportName :: string
  importType :: ExternType

record IRModule =
  irTypes :: "FunctionType list"
  irImports :: "Import list"
  irFunctionDefs :: "FunctionDef list"
  irExports :: "Export list"
  irStartFunctionIndex :: "nat option"
  irFunctionNames :: "string list"

definition emptyIRModule :: IRModule where
  "emptyIRModule = \<lparr>irTypes = [], irImports = [], irFunctionDefs = [], irExports = [],
     irStartFunctionIndex = None, irFunctionNames = []\<rparr>"

definition setDisassemblyNames :: "IRModule \<Rightarrow> string list \<Rightarrow> IRModule" where
  "setDisassemblyNames m functionNames = m\<lparr>irFunctionNames := functionNames\<rparr>"

section \<open>Runtime objects (WAVM/Runtime)\<close>

text \<open>
  Modelled from the spec: the runtime library is not part of the sources at hand. A
  compartment is the arena that owns every object created during a run; an \<open>Object *\<close>
  is an index into it, and \<open>nullptr\<close> is \<open>None\<close>. Each \<open>create...\<close> call allocates one
  new object of exactly the requested type at the end of the arena, as the spec's
  StubFactory describes ("allocates a real ... of the requested ...").
\<close>

type_synonym ObjRef = nat

datatype Object =
  FunctionObject FunctionType "Operator list" string
  | TableObject TableType string
  | MemoryObject MemoryType string
  | GlobalObject GlobalType Value
  | ExceptionTypeObject ExceptionType string

type_synonym Compartment = "Object list"

definition createCompartment :: Compartment where
  "createCompartment = []"

fun lookupObject :: "Compartment \<Rightarrow> ObjRef \<Rightarrow> Object option" where
  "lookupObject [] _ = None"
| "lookupObject (x # xs) 0 = Some x"
| "lookupObject (x # xs) (Suc n) = lookupObject xs n"

definition allocate :: "Compartment \<Rightarrow> Object \<Rightarrow> ObjRef option \<times> Compartment" where
  "allocate c obj = (Some (length c), c @ [obj])"

definition createMemory :: "Compartment \<Rightarrow> MemoryType \<Rightarrow> string \<Rightarrow> ObjRef option \<times> Compartment" where
  "createMemory c t debugName = allocate c (MemoryObject t debugName)"

definition createTable :: "Compartment \<Rightarrow> TableType \<Rightarrow> string \<Rightarrow> ObjRef option \<times> Compartment" where
  "createTable c t debugName = allocate c (TableObject t debugName)"

definition createGlobal :: "Compartment \<Rightarrow> GlobalType \<Rightarrow> Value \<Rightarrow> ObjRef option \<times> Compartment" where
  "createGlobal c t initialValue = allocate c (GlobalObject t initialValue)"

definition createExceptionType ::
  "Compartment \<Rightarrow> ExceptionType \<Rightarrow> string \<Rightarrow> ObjRef option \<times> Compartment" where
  "createExceptionType c t debugName = allocate c (ExceptionTypeObject t debugName)"

fun objectType :: "Object \<Rightarrow> ExternType" where
  "objectType (FunctionObject t _ _) = ExternFunction t"
| "objectType (TableObject t _) = ExternTable t"
| "objectType (MemoryObject t _) = ExternMemory t"
| "objectType (GlobalObject t _) = ExternGlobal t"
| "objectType (ExceptionTypeObject t _) = ExternException t"

definition getObjectType :: "Compartment \<Rightarrow> ObjRef \<Rightarrow> ExternType" where
  "getObjectType c r = (case lookupObject c r of None \<Rightarrow> ExternInvalid | Some obj \<Rightarrow> objectType obj)"

text \<open>
  Modelled from the spec: \<open>isA\<close> (Runtime) is the structural compatibility test of
  ImportResolver step 3: function signatures equal; for a memory or a table the
  requested limits are satisfied by the actual object's limits; global value type and
  mutability equal; exception-tag parameter types equal.
\<close>

definition isSubset :: "SizeConstraints \<Rightarrow> SizeConstraints \<Rightarrow> bool" where
  "isSubset super sub = (sizeMin super \<le> sizeMin sub \<and> sizeMax sub \<le> sizeMax super)"

fun isSubtype :: "ExternType \<Rightarrow> ExternType \<Rightarrow> bool" where
  "isSubtype (ExternFunction a) (ExternFunction e) = (a = e)"
| "isSubtype (ExternTable a) (ExternTable e) =
     (elementType a = elementType e \<and> tableIsShared a = tableIsShared e
      \<and> isSubset (tableSize e) (tableSize a))"
| "isSubtype (ExternMemory a) (ExternMemory e) =
     (memoryIsShared a = memoryIsShared e \<and> isSubset (memorySize e) (memorySize a))"
| "isSubtype (ExternGlobal a) (ExternGlobal e) = (a = e)"
| "isSubtype (ExternException a) (ExternException e) = (a = e)"
| "isSubtype _ _ = False"

definition isA :: "Compartment \<Rightarrow> ObjRef \<Rightarrow> ExternType \<Rightarrow> bool" where
  "isA c r t = (case lookupObject c r of None \<Rightarrow> False | Some obj \<Rightarrow> isSubtype (objectType obj) t)"

record ModuleInstance =
  exportMap :: "(string \<times> ObjRef) list"
  instanceStartFunction :: "ObjRef option"
  instanceDebugName :: string

definition getInstanceExport :: "ModuleInstance \<Rightarrow> string \<Rightarrow> ObjRef option" where
  "getInstanceExport moduleInstance name = map_of (exportMap moduleInstance) name"

definition getStartFunction :: "ModuleInstance \<Rightarrow> ObjRef option" where
  "getStartFunction moduleInstance = instanceStartFunction moduleInstance"

text \<open>
  Modelled from the spec: \<open>asFunctionNullable\<close> (Runtime) turns an object pointer into a
  function pointer. The spec only tells an entry point that is there from one that is
  absent; here a null pointer, and an object that is not a function, give the null
  pointer.
\<close>

definition asFunctionNullable :: "Compartment \<Rightarrow> ObjRef option \<Rightarrow> ObjRef option" where
  "asFunctionNullable c object =
     (case object of
        None \<Rightarrow> None
      | Some r \<Rightarrow> (case lookupObject c r of Some (FunctionObject _ _ _) \<Rightarrow> Some r | _ \<Rightarrow> None))"

definition getFunctionType :: "Compartment \<Rightarrow> ObjRef \<Rightarrow> FunctionType" where
  "getFunctionType c f =
     (case lookupObject c f of
        Some (FunctionObject t _ _) \<Rightarrow> t
      | _ \<Rightarrow> \<lparr>results = [], params = []\<rparr>)"

text \<open>
  Modelled from the spec: the validator (WAVM/IR/Validate.h) is not part of the sources
  at hand. Before the code sections it checks the references a module descriptor holds:
  the type index of every function definition, the index of every export in the index
  space of its kind, and the start function. After the code sections nothing of the
  descriptor modelled here is left to check.
\<close>

definition numImported :: "IRModule \<Rightarrow> ExternKind \<Rightarrow> nat" where
  "numImported ir k = length (filter (\<lambda>imp. kind (importType imp) = k) (irImports ir))"

definition numFunctions :: "IRModule \<Rightarrow> nat" where
  "numFunctions ir = numImported ir ExternKind_function + length (irFunctionDefs ir)"

definition validExport :: "IRModule \<Rightarrow> Export \<Rightarrow> bool" where
  "validExport ir e =
     (if exportedKind e = ExternKind_function then exportedIndex e < numFunctions ir
      else exportedIndex e < numImported ir (exportedKind e))"

definition validatePreCodeSections :: "IRModule \<Rightarrow> bool" where
  "validatePreCodeSections ir =
     (list_all (\<lambda>d. typeIndex d < length (irTypes ir)) (irFunctionDefs ir)
      \<and> list_all (validExport ir) (irExports ir)
      \<and> (case irStartFunctionIndex ir of None \<Rightarrow> True | Some s \<Rightarrow> s < numFunctions ir))"

definition validatePostCodeSections :: "IRModule \<Rightarrow> bool" where
  "validatePostCodeSections ir = True"

text \<open>
  Modelled from the spec: the execution engine (\<open>compileModule\<close>, \<open>instantiateModule\<close>)
  is an external collaborator. Compiling keeps the module descriptor. Instantiating
  allocates one function object per function definition, carrying the signature the
  definition's type index names, its body and its disassembly name; the index space of
  each kind is the imports of that kind followed by the definitions; the exports and the
  start function are looked up in those index spaces. An index out of range, or an
  import that was left unbound, yields no instance.
\<close>

datatype Module = Module IRModule

fun moduleIR :: "Module \<Rightarrow> IRModule" where
  "moduleIR (Module ir) = ir"

definition compileModule :: "IRModule \<Rightarrow> Module" where
  "compileModule irModule = Module irModule"

definition importedObjects :: "IRModule \<Rightarrow> ObjRef list \<Rightarrow> ExternKind \<Rightarrow> ObjRef list" where
  "importedObjects ir imported k =
     map snd (filter (\<lambda>(imp, r). kind (importType imp) = k) (zip (irImports ir) imported))"

definition functionName :: "IRModule \<Rightarrow> nat \<Rightarrow> string" where
  "functionName ir i = (if i < length (irFunctionNames ir) then irFunctionNames ir ! i else [])"

definition functionObject :: "IRModule \<Rightarrow> nat \<Rightarrow> nat \<times> FunctionDef \<Rightarrow> Object option" where
  "functionObject ir numImportedFunctions p =
     (case p of (i, d) \<Rightarrow>
        if typeIndex d < length (irTypes ir)
        then Some (FunctionObject (irTypes ir ! typeIndex d) (code d)
                     (functionName ir (numImportedFunctions + i)))
        else None)"

definition indexSpace ::
  "IRModule \<Rightarrow> ObjRef list \<Rightarrow> nat \<Rightarrow> nat \<Rightarrow> ExternKind \<Rightarrow> ObjRef list" where
  "indexSpace ir imported base numDefs k =
     importedObjects ir imported k
     @ (if k = ExternKind_function then [base ..< base + numDefs] else [])"

definition resolveExport :: "(ExternKind \<Rightarrow> ObjRef list) \<Rightarrow> Export \<Rightarrow> (string \<times> ObjRef) option" where
  "resolveExport space e =
     (if exportedIndex e < length (space (exportedKind e))
      then Some (exportedName e, space (exportedKind e) ! exportedIndex e)
      else None)"

definition instantiateModule ::
  "Compartment \<Rightarrow> Module \<Rightarrow> ObjRef option list \<Rightarrow> string
     \<Rightarrow> ModuleInstance option \<times> Compartment" where
  "instantiateModule c m resolvedImports debugName =
     (let ir = moduleIR m in
      if length resolvedImports \<noteq> length (irImports ir) then (None, c)
      else
        (case those resolvedImports of
           None \<Rightarrow> (None, c)
         | Some imported \<Rightarrow>
           (case those (map (functionObject ir
                               (length (importedObjects ir imported ExternKind_function)))
                          (enumerate 0 (irFunctionDefs ir))) of
              None \<Rightarrow> (None, c)
            | Some functions \<Rightarrow>
              (let space = indexSpace ir imported (length c) (length functions) in
               case those (map (resolveExport space) (irExports ir)) of
                 None \<Rightarrow> (None, c)
               | Some exports \<Rightarrow>
                 (case irStartFunctionIndex ir of
                    None \<Rightarrow>
                      (Some \<lparr>exportMap = exports, instanceStartFunction = None,
                             instanceDebugName = debugName\<rparr>, c @ functions)
                  | Some s \<Rightarrow>
                      if s < length (space ExternKind_function)
                      then (Some \<lparr>exportMap = exports,
                                  instanceStartFunction = Some (space ExternKind_function ! s),
                                  instanceDebugName = debugName\<rparr>, c @ functions)
                      else (None, c))))))"

text \<open>
  Modelled from the spec: running a function body. The unconditional-trap operator
  diverges via a trap whatever the operand stack holds; the end marker returns it.
\<close>

datatype 'a Execution = Returned 'a | Trapped

fun executeCode :: "Operator list \<Rightarrow> ValueTuple \<Rightarrow> ValueTuple \<Rightarrow> ValueTuple Execution" where
  "executeCode [] locals stack = Returned stack"
| "executeCode (Op_unreachable # _) locals stack = Trapped"
| "executeCode (Op_end # _) locals stack = Returned stack"

definition callFunctionObject :: "Compartment \<Rightarrow> ObjRef \<Rightarrow> ValueTuple \<Rightarrow> ValueTuple Execution option" where
  "callFunctionObject c f arguments =
     (case lookupObject c f of
        Some (FunctionObject t body _) \<Rightarrow> Some (executeCode body arguments [])
      | _ \<Rightarrow> None)"

section \<open>RootResolver (wavm-run.cpp, lines 22-98)\<close>

text \<open>
  Ways in which the process stops without an exit status of \<open>run\<close>:
  \<open>Errors::unreachable\<close>, a module the validator rejects, a failed \<open>wavmAssert\<close>, a read
  through a null pointer or past the end of \<open>argv\<close>, and a runtime exception (a trap)
  that nothing catches.
\<close>

datatype Abort =
  ErrorsUnreachable
  | ValidationException
  | AssertionFailed
  | NullDereference
  | OutOfBounds
  | RuntimeException

datatype Out =
  OutString string
  | OutType ExternType
  | OutNat nat
  | OutParseErrors string "string list"

record RootResolver =
  compartment :: Compartment
  moduleNameToInstanceMap :: "string \<rightharpoonup> ModuleInstance"

definition RootResolver_new :: "Compartment \<Rightarrow> RootResolver" where
  "RootResolver_new inCompartment =
     \<lparr>compartment = inCompartment, moduleNameToInstanceMap = Map.empty\<rparr>"

text \<open>
  Lines 53-66: the body and the module of a stub function. The body is what the encoder
  has written after \<open>unreachable\<close> and \<open>end\<close>; the module gets the requested signature
  as its only type, one definition of that type, the export \<open>importStub\<close> of function 0
  and the disassembly name.
\<close>

definition stubIRModule :: "string \<Rightarrow> FunctionType \<Rightarrow> IRModule" where
  "stubIRModule exportName t =
     (let codeStream = encoder_end (encoder_unreachable []);
          ir = emptyIRModule
            \<lparr>irTypes := irTypes emptyIRModule @ [t],
             irFunctionDefs := irFunctionDefs emptyIRModule
               @ [\<lparr>typeIndex = 0, nonParameterLocalTypes = [], code = codeStream,
                    branchTables = []\<rparr>],
             irExports := irExports emptyIRModule
               @ [\<lparr>exportedName = ''importStub'', exportedKind = ExternKind_function,
                    exportedIndex = 0\<rparr>]\<rparr>;
          stubModuleNames = [] @ [''importStub: '' @ exportName]
      in setDisassemblyNames ir stubModuleNames)"

text \<open>
  Lines 49-97: the stub for an import that could not be resolved. The result is the
  object pointer and the compartment after the allocation, or the way the process stops.
\<close>

definition getStubObject ::
  "RootResolver \<Rightarrow> string \<Rightarrow> ExternType \<Rightarrow> Abort + (ObjRef option \<times> Compartment)" where
  "getStubObject this exportName t =
     (case t of
        ExternFunction functionType \<Rightarrow>
          if validatePreCodeSections (stubIRModule exportName functionType)
             \<and> validatePostCodeSections (stubIRModule exportName functionType)
          then
            (let stubModule = compileModule (stubIRModule exportName functionType) in
             case instantiateModule (compartment this) stubModule [] ''importStub'' of
               (None, c') \<Rightarrow> Inl NullDereference
             | (Some stubModuleInstance, c') \<Rightarrow>
                 Inr (getInstanceExport stubModuleInstance ''importStub'', c'))
          else Inl ValidationException
      | ExternMemory memoryType \<Rightarrow> Inr (createMemory (compartment this) memoryType exportName)
      | ExternTable tableType \<Rightarrow> Inr (createTable (compartment this) tableType exportName)
      | ExternGlobal globalType \<Rightarrow>
          Inr (createGlobal (compartment this) globalType
                 (mkValue (valueType globalType) UntaggedValue_default))
      | ExternException exceptionType \<Rightarrow>
          Inr (createExceptionType (compartment this) exceptionType ''importStub'')
      | ExternInvalid \<Rightarrow> Inl ErrorsUnreachable)"

text \<open>
  Lines 28-47: \<open>resolve\<close>. The result holds the returned flag, \<open>outObject\<close>, the resolver
  with the compartment as the call leaves it, and what was written to standard output.
\<close>

record Resolved =
  resolveReturned :: bool
  outObject :: "ObjRef option"
  resolverAfter :: RootResolver
  resolveOutput :: "Out list"

definition resolve ::
  "RootResolver \<Rightarrow> string \<Rightarrow> string \<Rightarrow> ExternType \<Rightarrow> Abort + Resolved" where
  "resolve this moduleName exportName t =
     (case (case moduleNameToInstanceMap this moduleName of
              None \<Rightarrow> None
            | Some namedInstance \<Rightarrow> getInstanceExport namedInstance exportName) of
        Some object \<Rightarrow>
          if isA (compartment this) object t
          then Inr \<lparr>resolveReturned = True, outObject = Some object,
                    resolverAfter = this, resolveOutput = []\<rparr>
          else Inr \<lparr>resolveReturned = False, outObject = Some object,
                    resolverAfter = this,
                    resolveOutput =
                      [OutString ''Resolved import %s.%s to a %s, but was expecting %s\<newline>'',
                       OutString moduleName, OutString exportName,
                       OutType (getObjectType (compartment this) object), OutType t]\<rparr>
      | None \<Rightarrow>
          (case getStubObject this exportName t of
             Inl a \<Rightarrow> Inl a
           | Inr (object, c') \<Rightarrow>
               Inr \<lparr>resolveReturned = True, outObject = object,
                    resolverAfter = this\<lparr>compartment := c'\<rparr>, resolveOutput = []\<rparr>))"

section \<open>Linking (WAVM/Runtime/Linker.h)\<close>

text \<open>
  Modelled from the spec: \<open>linkModule\<close> is not part of the sources at hand. LinkSession
  iterates the import declarations in declaration order and asks the resolver for each;
  every binding goes to the ordered resolved-import list, every failure to the
  missing-imports list (its slot in the resolved list stays null); it does not stop at
  the first failure, and success is an empty missing-imports list.
\<close>

record LinkResult =
  resolvedImports :: "ObjRef option list"
  missingImports :: "Import list"
  success :: bool

record Linking =
  linkResolved :: "ObjRef option list"
  linkMissing :: "Import list"
  linkResolver :: RootResolver
  linkOutput :: "Out list"

fun linkImports :: "RootResolver \<Rightarrow> Import list \<Rightarrow> Abort + Linking" where
  "linkImports resolver [] =
     Inr \<lparr>linkResolved = [], linkMissing = [], linkResolver = resolver, linkOutput = []\<rparr>"
| "linkImports resolver (imp # imps) =
     (case resolve resolver (importModuleName imp) (importExportName imp) (importType imp) of
        Inl a \<Rightarrow> Inl a
      | Inr r \<Rightarrow>
        (case linkImports (resolverAfter r) imps of
           Inl a \<Rightarrow> Inl a
         | Inr l \<Rightarrow>
             if resolveReturned r
             then Inr (l\<lparr>linkResolved := outObject r # linkResolved l,
                         linkOutput := resolveOutput r @ linkOutput l\<rparr>)
             else Inr (l\<lparr>linkResolved := None # linkResolved l,
                         linkMissing := imp # linkMissing l,
                         linkOutput := resolveOutput r @ linkOutput l\<rparr>)))"

definition linkModule ::
  "IRModule \<Rightarrow> RootResolver \<Rightarrow> Abort + (LinkResult \<times> RootResolver \<times> Out list)" where
  "linkModule irModule resolver =
     (case linkImports resolver (irImports irModule) of
        Inl a \<Rightarrow> Inl a
      | Inr l \<Rightarrow>
          Inr (\<lparr>resolvedImports = linkResolved l, missingImports = linkMissing l,
                success = (linkMissing l = [])\<rparr>,
               linkResolver l, linkOutput l))"

section \<open>The host: file system, text parser, environment shim, execution\<close>

text \<open>
  The collaborators whose results the source cannot determine are parameters of the
  model: reading a file, parsing the text format, the Emscripten shim
  (\<open>Emscripten::instantiate\<close>, \<open>initializeGlobals\<close>, \<open>injectCommandArgs\<close>) and
  \<open>invokeFunctionChecked\<close>, which is \<open>None\<close> when the call ends in a runtime exception.
\<close>

record EmscriptenInstance =
  env :: ModuleInstance
  asm2wasm :: ModuleInstance

record Host =
  loadFile :: "string \<Rightarrow> 8 word list option"
  parseModule :: "8 word list \<Rightarrow> nat \<Rightarrow> string list + IRModule"
  emscriptenInstantiate :: "Compartment \<Rightarrow> IRModule \<Rightarrow> EmscriptenInstance option \<times> Compartment"
  initializeGlobals :: "Compartment \<Rightarrow> IRModule \<Rightarrow> ModuleInstance \<Rightarrow> Compartment option"
  injectCommandArgs :: "EmscriptenInstance \<Rightarrow> string list \<Rightarrow> ValueTuple"
  invokeFunctionChecked ::
    "Compartment \<Rightarrow> ObjRef \<Rightarrow> ValueTuple \<Rightarrow> (ValueTuple \<times> Compartment) option"

section \<open>loadModule (wavm-run.cpp, lines 100-117)\<close>

definition loadModule :: "Host \<Rightarrow> string \<Rightarrow> IRModule option \<times> Out list" where
  "loadModule H filename =
     (case loadFile H filename of
        None \<Rightarrow> (None, [])
      | Some fileBytes \<Rightarrow>
          (let fileBytes = fileBytes @ [0] in
           case parseModule H fileBytes (length fileBytes) of
             Inl parseErrors \<Rightarrow>
               (None, [OutString ''Error parsing WebAssembly text file:\<newline>'',
                       OutParseErrors filename parseErrors])
           | Inr outModule \<Rightarrow> (Some outModule, [])))"

section \<open>run (wavm-run.cpp, lines 119-209)\<close>

record CommandLineOptions =
  filename :: "string option"
  args :: "string list"

definition EXIT_SUCCESS :: int where
  "EXIT_SUCCESS = 0"

definition EXIT_FAILURE :: int where
  "EXIT_FAILURE = 1"

definition PRIu64 :: string where
  "PRIu64 = ''lu''"

text \<open>
  What a run leaves behind: how the process ends (an exit status, or an abort), what it
  wrote to standard output, and the calls it made to its collaborators, in order. The
  two call sites of \<open>invokeFunctionChecked\<close> are told apart: \<open>CallStartFunction\<close> is the
  call of line 165 (no arguments), \<open>CallInvokeFunction\<close> the call of line 202.
\<close>

datatype Event =
  CallLoadModule string
  | CallCompileModule
  | CallEmscriptenInstantiate
  | CallLinkModule
  | CallInstantiateModule string
  | CallStartFunction ObjRef
  | CallInitializeGlobals
  | CallGetInstanceExport string
  | CallInjectCommandArgs "string list"
  | CallInvokeFunction ObjRef ValueTuple

record Process =
  outcome :: "Abort + int"
  printed :: "Out list"
  events :: "Event list"

definition after :: "Out list \<Rightarrow> Event list \<Rightarrow> Process \<Rightarrow> Process" where
  "after out evs p = p\<lparr>printed := out @ printed p, events := evs @ events p\<rparr>"

definition stop :: "Abort + int \<Rightarrow> Out list \<Rightarrow> Event list \<Rightarrow> Process" where
  "stop r out evs = \<lparr>outcome = r, printed = out, events = evs\<rparr>"

text \<open>Lines 202-208: the call of the entry point and the exit status.\<close>

definition exitStatus :: "ValueTuple \<Rightarrow> int" where
  "exitStatus functionResults =
     (if length functionResults = 1 \<and> valueTag (functionResults ! 0) = i32
      then sint (value_i32 (functionResults ! 0))
      else EXIT_SUCCESS)"

definition invokeEntry :: "Host \<Rightarrow> Compartment \<Rightarrow> ObjRef \<Rightarrow> ValueTuple \<Rightarrow> Process" where
  "invokeEntry H c function invokeArgs =
     (case invokeFunctionChecked H c function invokeArgs of
        None \<Rightarrow> stop (Inl RuntimeException) [] [CallInvokeFunction function invokeArgs]
      | Some (functionResults, c') \<Rightarrow>
          stop (Inr (exitStatus functionResults)) [] [CallInvokeFunction function invokeArgs])"

text \<open>Lines 172-182: the function export to call.\<close>

definition lookupEntryPoint :: "Compartment \<Rightarrow> ModuleInstance \<Rightarrow> ObjRef option \<times> Event list" where
  "lookupEntryPoint c moduleInstance =
     (case asFunctionNullable c (getInstanceExport moduleInstance ''main'') of
        Some function \<Rightarrow> (Some function, [CallGetInstanceExport ''main''])
      | None \<Rightarrow>
          (asFunctionNullable c (getInstanceExport moduleInstance ''_main''),
           [CallGetInstanceExport ''main'', CallGetInstanceExport ''_main'']))"

text \<open>Lines 189-192: the argument strings of an entry point with two parameters.\<close>

definition argStrings :: "string \<Rightarrow> CommandLineOptions \<Rightarrow> string list" where
  "argStrings name options = [name] @ args options"

text \<open>Lines 172-208: from the lookup of the entry point to the exit status.\<close>

definition enterMain ::
  "Host \<Rightarrow> string \<Rightarrow> CommandLineOptions \<Rightarrow> EmscriptenInstance option \<Rightarrow> Compartment
     \<Rightarrow> ModuleInstance \<Rightarrow> Process" where
  "enterMain H name options emscriptenInstance c moduleInstance =
     (case lookupEntryPoint c moduleInstance of
        (None, lookups) \<Rightarrow>
          stop (Inr EXIT_FAILURE) [OutString ''Module does not export main function''] lookups
      | (Some function, lookups) \<Rightarrow>
          (let functionType = getFunctionType c function in
           if length (params functionType) = 2
           then
             (case emscriptenInstance of
                None \<Rightarrow> stop (Inl AssertionFailed) [] lookups
              | Some shim \<Rightarrow>
                  after [] (lookups @ [CallInjectCommandArgs (argStrings name options)])
                    (invokeEntry H c function
                       ([] @ injectCommandArgs H shim (argStrings name options))))
           else if length (params functionType) > 0
           then
             stop (Inr EXIT_FAILURE)
               [OutString ''WebAssembly function requires '', OutString PRIu64,
                OutString '' argument(s), but only 0 or 2 can be passed!'',
                OutNat (length (params functionType))]
               lookups
           else after [] lookups (invokeEntry H c function [])))"

text \<open>Lines 163-170: the start function and the Emscripten global initializers.\<close>

definition initializeAndEnter ::
  "Host \<Rightarrow> string \<Rightarrow> CommandLineOptions \<Rightarrow> IRModule \<Rightarrow> EmscriptenInstance option
     \<Rightarrow> Compartment \<Rightarrow> ModuleInstance \<Rightarrow> Process" where
  "initializeAndEnter H name options irModule emscriptenInstance c moduleInstance =
     (case initializeGlobals H c irModule moduleInstance of
        None \<Rightarrow> stop (Inl RuntimeException) [] [CallInitializeGlobals]
      | Some c' \<Rightarrow>
          after [] [CallInitializeGlobals]
            (enterMain H name options emscriptenInstance c' moduleInstance))"

definition runInstance ::
  "Host \<Rightarrow> string \<Rightarrow> CommandLineOptions \<Rightarrow> IRModule \<Rightarrow> EmscriptenInstance option
     \<Rightarrow> Compartment \<Rightarrow> ModuleInstance \<Rightarrow> Process" where
  "runInstance H name options irModule emscriptenInstance c moduleInstance =
     (case getStartFunction moduleInstance of
        None \<Rightarrow> initializeAndEnter H name options irModule emscriptenInstance c moduleInstance
      | Some startFunction \<Rightarrow>
          (case invokeFunctionChecked H c startFunction [] of
             None \<Rightarrow> stop (Inl RuntimeException) [] [CallStartFunction startFunction]
           | Some (startResults, c') \<Rightarrow>
               after [] [CallStartFunction startFunction]
                 (initializeAndEnter H name options irModule emscriptenInstance c'
                    moduleInstance)))"

text \<open>Lines 124-161: load, compile, shim, link, instantiate.\<close>

definition missingImportOutput :: "Import \<Rightarrow> Out list" where
  "missingImportOutput missingImport =
     [OutString ''Missing import: module=\"%s\" export=\"%s\" type=\"%s\"\<newline>'',
      OutString (importModuleName missingImport), OutString (importExportName missingImport),
      OutType (importType missingImport)]"

definition registerShim :: "RootResolver \<Rightarrow> EmscriptenInstance option \<Rightarrow> RootResolver" where
  "registerShim rootResolver emscriptenInstance =
     (case emscriptenInstance of
        None \<Rightarrow> rootResolver
      | Some shim \<Rightarrow>
          rootResolver\<lparr>moduleNameToInstanceMap :=
            ((moduleNameToInstanceMap rootResolver)(''env'' \<mapsto> env shim))
              (''asm2wasm'' \<mapsto> asm2wasm shim)\<rparr>)"

definition run :: "Host \<Rightarrow> CommandLineOptions \<Rightarrow> Process" where
  "run H options =
     (case filename options of
        None \<Rightarrow> stop (Inl NullDereference) [] []
      | Some name \<Rightarrow>
        (case loadModule H name of
           (None, out) \<Rightarrow> stop (Inr EXIT_FAILURE) out [CallLoadModule name]
         | (Some irModule, out) \<Rightarrow>
           (let module = compileModule irModule;
                rootResolver = RootResolver_new createCompartment
            in case emscriptenInstantiate H createCompartment irModule of
              (emscriptenInstance, c1) \<Rightarrow>
              (let rootResolver = registerShim (rootResolver\<lparr>compartment := c1\<rparr>) emscriptenInstance;
                   evs = [CallLoadModule name, CallCompileModule, CallEmscriptenInstantiate,
                          CallLinkModule]
               in case linkModule irModule rootResolver of
                 Inl a \<Rightarrow> stop (Inl a) out evs
               | Inr (linkResult, resolver', linkOut) \<Rightarrow>
                   if \<not> success linkResult
                   then
                     stop (Inr EXIT_FAILURE)
                       (out @ linkOut @ [OutString ''Failed to link module:\<newline>'']
                        @ concat (map missingImportOutput (missingImports linkResult)))
                       evs
                   else
                     (case instantiateModule (compartment resolver') module
                             (resolvedImports linkResult) name of
                        (None, c2) \<Rightarrow>
                          stop (Inr EXIT_FAILURE) (out @ linkOut)
                            (evs @ [CallInstantiateModule name])
                      | (Some moduleInstance, c2) \<Rightarrow>
                          after (out @ linkOut) (evs @ [CallInstantiateModule name])
                            (runInstance H name options irModule emscriptenInstance c2
                               moduleInstance))))))"

section \<open>main (wavm-run.cpp, lines 211-241)\<close>

definition showHelp :: "Out list" where
  "showHelp =
     [OutString (''Usage: wavm-run [programfile] [--] [arguments]\<newline>''
        @ ''  -h|--help             Display this message\<newline>'')]"

text \<open>
  The handler that \<open>main\<close> installs for unhandled runtime exceptions ends the process;
  a runtime exception is the outcome \<open>RuntimeException\<close> wherever it is raised.
\<close>

text \<open>
  The scanning loop of \<open>main\<close>. The second argument is what \<open>options.args\<close> points at
  after the increment in the loop condition; \<open>Inl\<close> is the early return of the help
  branch, \<open>Inr\<close> the options when the loop is left.
\<close>

fun scanArgs :: "CommandLineOptions \<Rightarrow> string list \<Rightarrow> int + CommandLineOptions" where
  "scanArgs options [] = Inr (options\<lparr>args := []\<rparr>)"
| "scanArgs options (a # rest) =
     (if a = ''--help'' \<or> a = ''-h'' then Inl EXIT_SUCCESS
      else if filename options = None
      then scanArgs (options\<lparr>filename := Some a\<rparr>) rest
      else Inr (options\<lparr>args := a # rest\<rparr>))"

definition main :: "Host \<Rightarrow> string list \<Rightarrow> Process" where
  "main H argv =
     (case argv of
        [] \<Rightarrow> stop (Inl OutOfBounds) [] []
      | argv0 # rest \<Rightarrow>
        (case scanArgs \<lparr>filename = None, args = argv\<rparr> rest of
           Inl status \<Rightarrow> stop (Inr status) showHelp []
         | Inr options \<Rightarrow>
             if filename options = None
             then stop (Inr EXIT_FAILURE) showHelp []
             else run H options))"

section \<open>The closed set of extern kinds, and example inputs\<close>

text \<open>The spec's closed set of extern kinds.\<close>

definition closedKinds :: "ExternKind set" where
  "closedKinds = {ExternKind_function, ExternKind_memory, ExternKind_table, ExternKind_global,
     ExternKind_exceptionType}"

text \<open>
  A host for worked examples: every file reads as empty and parses to the module \<open>m\<close>,
  the shim is \<open>shim\<close>, the global initializers return, the injected arguments are an
  argument count and a null pointer, and every call returns \<open>result\<close> (a runtime
  exception when it is \<open>None\<close>).
\<close>

definition exampleHost :: "IRModule \<Rightarrow> EmscriptenInstance option \<Rightarrow> ValueTuple option \<Rightarrow> Host" where
  "exampleHost m shim result =
     \<lparr>loadFile = (\<lambda>name. Some []),
      parseModule = (\<lambda>bytes n. Inr m),
      emscriptenInstantiate = (\<lambda>c ir. (shim, c)),
      initializeGlobals = (\<lambda>c ir inst. Some c),
      injectCommandArgs = (\<lambda>inst strings. [mkValue i32 (of_nat (length strings)), mkValue i32 0]),
      invokeFunctionChecked = (\<lambda>c f arguments. map_option (\<lambda>r. (r, c)) result)\<rparr>"

text \<open>A module with one import whose type has no kind of the closed set.\<close>

definition faultyModule :: IRModule where
  "faultyModule = emptyIRModule\<lparr>irImports :=
     [\<lparr>importModuleName = ''env'', importExportName = ''x'', importType = ExternInvalid\<rparr>]\<rparr>"

text \<open>
  Two function objects (the first with the parameters \<open>ps\<close>), an instance with a given
  export table, a shim, and a module that defines and exports one function \<open>main\<close>.
\<close>

definition exampleFunctions :: "TypeTuple \<Rightarrow> Compartment" where
  "exampleFunctions ps =
     [FunctionObject \<lparr>results = [i32], params = ps\<rparr> [Op_end] ''main'',
      FunctionObject \<lparr>results = [], params = []\<rparr> [Op_end] ''other'']"

definition exampleInstance :: "(string \<times> ObjRef) list \<Rightarrow> ModuleInstance" where
  "exampleInstance ex =
     \<lparr>exportMap = ex, instanceStartFunction = None, instanceDebugName = ''prog.wast''\<rparr>"

definition exampleShim :: EmscriptenInstance where
  "exampleShim = \<lparr>env = exampleInstance [], asm2wasm = exampleInstance []\<rparr>"

definition exampleMain :: "TypeTuple \<Rightarrow> IRModule" where
  "exampleMain ps = emptyIRModule
     \<lparr>irTypes := [\<lparr>results = [i32], params = ps\<rparr>],
      irFunctionDefs := [\<lparr>typeIndex = 0, nonParameterLocalTypes = [], code = [Op_end],
                          branchTables = []\<rparr>],
      irExports := [\<lparr>exportedName = ''main'', exportedKind = ExternKind_function,
                      exportedIndex = 0\<rparr>]\<rparr>"

text \<open>
  A shim whose \<open>env\<close> exports one memory, the compartment that holds it, a host whose
  shim instantiation leaves those objects in the compartment, the resolver \<open>run\<close> builds
  from them, a module with the single import \<open>env.memory\<close> of a given type, and two
  extern types: the memory's own, and a function type.
\<close>

definition exampleShimObjects :: Compartment where
  "exampleShimObjects =
     [MemoryObject \<lparr>memoryIsShared = False, memorySize = \<lparr>sizeMin = 1, sizeMax = 2\<rparr>\<rparr>
        ''memory'']"

definition exampleEnvShim :: EmscriptenInstance where
  "exampleEnvShim = \<lparr>env = exampleInstance [(''memory'', 0)], asm2wasm = exampleInstance []\<rparr>"

definition exampleHostWith ::
  "Compartment \<Rightarrow> IRModule \<Rightarrow> EmscriptenInstance option \<Rightarrow> ValueTuple option \<Rightarrow> Host" where
  "exampleHostWith objects m shim result =
     (exampleHost m shim result)\<lparr>emscriptenInstantiate := (\<lambda>c ir. (shim, c @ objects))\<rparr>"

definition exampleResolver :: RootResolver where
  "exampleResolver = registerShim (RootResolver_new exampleShimObjects) (Some exampleEnvShim)"

definition exampleImporting :: "ExternType \<Rightarrow> IRModule" where
  "exampleImporting t = emptyIRModule\<lparr>irImports :=
     [\<lparr>importModuleName = ''env'', importExportName = ''memory'', importType = t\<rparr>]\<rparr>"

definition exampleMemoryType :: ExternType where
  "exampleMemoryType =
     ExternMemory \<lparr>memoryIsShared = False, memorySize = \<lparr>sizeMin = 1, sizeMax = 2\<rparr>\<rparr>"

definition exampleFunctionType :: ExternType where
  "exampleFunctionType = ExternFunction \<lparr>results = [], params = [i32]\<rparr>"

text \<open>An instance with a start function (the second of the example functions).\<close>

definition exampleStarting :: ModuleInstance where
  "exampleStarting =
     \<lparr>exportMap = [(''main'', 0)], instanceStartFunction = Some 1,
       instanceDebugName = ''prog.wast''\<rparr>"

section \<open>The order of the pipeline\<close>

text \<open>
  The position of each call in the spec's pipeline: Load, Compile, InstantiateShim, Link,
  InstantiateMainModule, RunStartFunction, RunShimGlobalInit, LookupEntryPoint,
  MarshalArgs, Invoke.
\<close>

fun stageRank :: "Event \<Rightarrow> nat" where
  "stageRank (CallLoadModule _) = 0"
| "stageRank CallCompileModule = 1"
| "stageRank CallEmscriptenInstantiate = 2"
| "stageRank CallLinkModule = 3"
| "stageRank (CallInstantiateModule _) = 4"
| "stageRank (CallStartFunction _) = 5"
| "stageRank CallInitializeGlobals = 6"
| "stageRank (CallGetInstanceExport _) = 7"
| "stageRank (CallInjectCommandArgs _) = 8"
| "stageRank (CallInvokeFunction _ _) = 9"

section \<open>Objects in a compartment\<close>

lemma lookupObject_eq_nth: "lookupObject c r = (if r < length c then Some (c ! r) else None)"
  by (induction c r rule: lookupObject.induct) simp_all

lemma lookupObject_append_length: "lookupObject (c @ [obj]) (length c) = Some obj"
  by (simp add: lookupObject_eq_nth)

lemma lookupObject_length: "lookupObject c (length c) = None"
  by (simp add: lookupObject_eq_nth)

lemma lookupObject_append_Some:
  "lookupObject c r = Some obj \<Longrightarrow> lookupObject (c @ xs) r = Some obj"
  by (auto simp: lookupObject_eq_nth nth_append split: if_splits)

lemma stubIRModule_fields:
  "irTypes (stubIRModule n t) = [t]"
  "irImports (stubIRModule n t) = []"
  "irFunctionDefs (stubIRModule n t) =
     [\<lparr>typeIndex = 0, nonParameterLocalTypes = [], code = [Op_unreachable, Op_end],
       branchTables = []\<rparr>]"
  "irExports (stubIRModule n t) =
     [\<lparr>exportedName = ''importStub'', exportedKind = ExternKind_function, exportedIndex = 0\<rparr>]"
  "irStartFunctionIndex (stubIRModule n t) = None"
  "irFunctionNames (stubIRModule n t) = [''importStub: '' @ n]"
  by (simp_all add: stubIRModule_def emptyIRModule_def setDisassemblyNames_def
      encoder_end_def encoder_unreachable_def)

lemma instantiate_stub:
  "instantiateModule c (compileModule (stubIRModule n t)) [] ''importStub'' =
     (Some \<lparr>exportMap = [(''importStub'', length c)], instanceStartFunction = None,
            instanceDebugName = ''importStub''\<rparr>,
      c @ [FunctionObject t [Op_unreachable, Op_end] (''importStub: '' @ n)])"
  by (simp add: instantiateModule_def compileModule_def stubIRModule_fields
      importedObjects_def functionObject_def functionName_def indexSpace_def
      resolveExport_def enumerate_eq_zip)

lemma validate_stub:
  "validatePreCodeSections (stubIRModule n t)"
  "validatePostCodeSections (stubIRModule n t)"
  by (simp_all add: validatePreCodeSections_def validatePostCodeSections_def
      stubIRModule_fields validExport_def numFunctions_def numImported_def)

lemma getStubObject_function:
  "getStubObject this n (ExternFunction t) =
     Inr (Some (length (compartment this)),
          compartment this @ [FunctionObject t [Op_unreachable, Op_end] (''importStub: '' @ n)])"
  by (simp add: getStubObject_def validate_stub instantiate_stub getInstanceExport_def)

lemma exampleHost_simps:
  "loadFile (exampleHost m shim result) = (\<lambda>name. Some [])"
  "parseModule (exampleHost m shim result) = (\<lambda>bytes n. Inr m)"
  "emscriptenInstantiate (exampleHost m shim result) = (\<lambda>c ir. (shim, c))"
  "initializeGlobals (exampleHost m shim result) = (\<lambda>c ir inst. Some c)"
  "injectCommandArgs (exampleHost m shim result) =
     (\<lambda>inst strings. [mkValue i32 (of_nat (length strings)), mkValue i32 0])"
  "invokeFunctionChecked (exampleHost m shim result) =
     (\<lambda>c f arguments. map_option (\<lambda>r. (r, c)) result)"
  by (simp_all add: exampleHost_def)

lemma loadModule_exampleHost: "loadModule (exampleHost m shim result) name = (Some m, [])"
  by (simp add: loadModule_def exampleHost_simps)

lemma run_link_abort:
  assumes "loadModule H name = (Some irModule, out)"
    and "emscriptenInstantiate H createCompartment irModule = (shim, c1)"
    and "linkModule irModule (registerShim (RootResolver_new createCompartment\<lparr>compartment := c1\<rparr>) shim) = Inl a"
  shows "run H \<lparr>filename = Some name, args = as\<rparr> =
     stop (Inl a) out [CallLoadModule name, CallCompileModule, CallEmscriptenInstantiate, CallLinkModule]"
  using assms by (simp add: run_def)

lemma getStubObject_closed:
  "kind t \<in> closedKinds \<Longrightarrow> \<exists>r c'. getStubObject this exportName t = Inr (Some r, c')"
proof (cases t)
  case (ExternFunction functionType)
  then show ?thesis by (simp add: getStubObject_function)
qed (simp_all add: closedKinds_def getStubObject_def createMemory_def
      createTable_def createGlobal_def createExceptionType_def allocate_def)

section \<open>Stub synthesis\<close>

text \<open>
  C2. For a function-kind import, \<open>getStubObject\<close> builds a module with a single function
  whose body is the unconditional-trap operator followed by the end marker, typed with
  exactly the requested signature and labelled \<open>importStub: \<close> followed by the export
  name; it compiles and instantiates that module and returns the exported function, a new
  object of the compartment; calling that object ends in a trap whatever the arguments.
\<close>

theorem getStubObject_function_traps:
  "irTypes (stubIRModule exportName functionType) = [functionType]
   \<and> irFunctionDefs (stubIRModule exportName functionType) =
       [\<lparr>typeIndex = 0, nonParameterLocalTypes = [], code = [Op_unreachable, Op_end],
         branchTables = []\<rparr>]
   \<and> irFunctionNames (stubIRModule exportName functionType) = [''importStub: '' @ exportName]
   \<and> validatePreCodeSections (stubIRModule exportName functionType)
   \<and> validatePostCodeSections (stubIRModule exportName functionType)
   \<and> instantiateModule (compartment this) (compileModule (stubIRModule exportName functionType))
         [] ''importStub'' =
       (Some \<lparr>exportMap = [(''importStub'', length (compartment this))],
              instanceStartFunction = None, instanceDebugName = ''importStub''\<rparr>,
        compartment this
          @ [FunctionObject functionType [Op_unreachable, Op_end] (''importStub: '' @ exportName)])
   \<and> getStubObject this exportName (ExternFunction functionType) =
       Inr (Some (length (compartment this)),
            compartment this
              @ [FunctionObject functionType [Op_unreachable, Op_end]
                   (''importStub: '' @ exportName)])
   \<and> callFunctionObject
         (compartment this
            @ [FunctionObject functionType [Op_unreachable, Op_end] (''importStub: '' @ exportName)])
         (length (compartment this)) arguments = Some Trapped"
  by (simp add: stubIRModule_fields validate_stub instantiate_stub getStubObject_function
      callFunctionObject_def lookupObject_append_length)

text \<open>
  C9. For a global-kind import, \<open>getStubObject\<close> creates a new global whose type (value
  type and mutability) is exactly the requested one and whose initial value has the
  global's value type and an all-zero payload.
\<close>

theorem getStubObject_global_zero:
  "getStubObject this exportName (ExternGlobal globalType) =
     Inr (Some (length (compartment this)),
          compartment this
            @ [GlobalObject globalType \<lparr>valueTag = valueType globalType, untagged = 0\<rparr>])
   \<and> lookupObject (compartment this) (length (compartment this)) = None
   \<and> getObjectType
         (compartment this
            @ [GlobalObject globalType \<lparr>valueTag = valueType globalType, untagged = 0\<rparr>])
         (length (compartment this)) = ExternGlobal globalType"
  by (simp add: getStubObject_def createGlobal_def allocate_def mkValue_def
      UntaggedValue_default_def lookupObject_length getObjectType_def lookupObject_append_length)

text \<open>
  C8. A type whose kind is outside the closed set takes the default branch of
  \<open>getStubObject\<close>: \<open>Errors::unreachable\<close> stops the process, the resolver and the linker do
  not turn it into a result, and \<open>run\<close> ends without an exit status. A type whose kind is
  in the closed set never takes that branch: it always yields a stub object.
\<close>

theorem getStubObject_default_branch:
  "(kind t \<notin> closedKinds \<longrightarrow>
      getStubObject this exportName t = Inl ErrorsUnreachable
      \<and> (moduleNameToInstanceMap this moduleName = None \<longrightarrow>
           resolve this moduleName exportName t = Inl ErrorsUnreachable
           \<and> linkImports this
               (\<lparr>importModuleName = moduleName, importExportName = exportName, importType = t\<rparr>
                # imps) = Inl ErrorsUnreachable))
   \<and> (kind t \<in> closedKinds \<longrightarrow>
        (\<exists>r c'. getStubObject this exportName t = Inr (Some r, c')))
   \<and> (loadModule H name = (Some irModule, out)
        \<and> linkModule irModule
            (registerShim
               (RootResolver_new createCompartment
                  \<lparr>compartment := snd (emscriptenInstantiate H createCompartment irModule)\<rparr>)
               (fst (emscriptenInstantiate H createCompartment irModule)))
            = Inl ErrorsUnreachable \<longrightarrow>
        outcome (run H \<lparr>filename = Some name, args = as\<rparr>) = Inl ErrorsUnreachable)"
proof (intro conjI impI)
  assume k: "kind t \<notin> closedKinds"
  then have t: "t = ExternInvalid"
    by (cases t) (simp_all add: closedKinds_def)
  show g: "getStubObject this exportName t = Inl ErrorsUnreachable"
    by (simp add: t getStubObject_def)
  assume "moduleNameToInstanceMap this moduleName = None"
  then show r: "resolve this moduleName exportName t = Inl ErrorsUnreachable"
    by (simp add: resolve_def g)
  then show "linkImports this
      (\<lparr>importModuleName = moduleName, importExportName = exportName, importType = t\<rparr> # imps)
      = Inl ErrorsUnreachable"
    by simp
next
  assume "kind t \<in> closedKinds"
  then show "\<exists>r c'. getStubObject this exportName t = Inr (Some r, c')"
    by (rule getStubObject_closed)
next
  assume a: "loadModule H name = (Some irModule, out)
        \<and> linkModule irModule
            (registerShim
               (RootResolver_new createCompartment
                  \<lparr>compartment := snd (emscriptenInstantiate H createCompartment irModule)\<rparr>)
               (fst (emscriptenInstantiate H createCompartment irModule)))
            = Inl ErrorsUnreachable"
  obtain shim c1 where e: "emscriptenInstantiate H createCompartment irModule = (shim, c1)"
    by (cases "emscriptenInstantiate H createCompartment irModule")
  from a e show "outcome (run H \<lparr>filename = Some name, args = as\<rparr>) = Inl ErrorsUnreachable"
    by (simp add: run_link_abort [where shim = shim and ?c1.0 = c1] stop_def)
qed

theorem getStubObject_default_branch_witness:
  "kind ExternInvalid \<notin> closedKinds
   \<and> moduleNameToInstanceMap (RootResolver_new []) ''env'' = None
   \<and> getStubObject (RootResolver_new []) ''x'' ExternInvalid = Inl ErrorsUnreachable
   \<and> resolve (RootResolver_new []) ''env'' ''x'' ExternInvalid = Inl ErrorsUnreachable
   \<and> kind (ExternGlobal \<lparr>valueType = i64, isMutable = True\<rparr>) \<in> closedKinds
   \<and> (\<exists>r c'. getStubObject (RootResolver_new []) ''x''
                 (ExternGlobal \<lparr>valueType = i64, isMutable = True\<rparr>) = Inr (Some r, c'))
   \<and> loadModule (exampleHost faultyModule None None) ''prog.wast'' = (Some faultyModule, [])
   \<and> outcome (run (exampleHost faultyModule None None)
                 \<lparr>filename = Some ''prog.wast'', args = []\<rparr>) = Inl ErrorsUnreachable"
proof -
  have k1: "kind ExternInvalid \<notin> closedKinds"
    by (simp add: closedKinds_def)
  have m: "moduleNameToInstanceMap (RootResolver_new []) ''env'' = None"
    by (simp add: RootResolver_new_def)
  have k2: "kind (ExternGlobal \<lparr>valueType = i64, isMutable = True\<rparr>) \<in> closedKinds"
    by (simp add: closedKinds_def)
  have l: "loadModule (exampleHost faultyModule None None) ''prog.wast'' = (Some faultyModule, [])"
    by (rule loadModule_exampleHost)
  have link: "linkModule faultyModule
      (registerShim
         (RootResolver_new createCompartment
            \<lparr>compartment := snd (emscriptenInstantiate (exampleHost faultyModule None None)
                                   createCompartment faultyModule)\<rparr>)
         (fst (emscriptenInstantiate (exampleHost faultyModule None None)
                 createCompartment faultyModule)))
      = Inl ErrorsUnreachable"
    by (simp add: linkModule_def faultyModule_def emptyIRModule_def exampleHost_simps
        registerShim_def RootResolver_new_def createCompartment_def resolve_def
        getStubObject_def)
  note t1 = getStubObject_default_branch
    [of ExternInvalid "RootResolver_new []" "''x''" "''env''" "[]"
      "exampleHost faultyModule None None" "''prog.wast''" faultyModule "[]" "[]"]
  note t2 = getStubObject_default_branch
    [of "ExternGlobal \<lparr>valueType = i64, isMutable = True\<rparr>" "RootResolver_new []" "''x''"]
  from t1 k1 m l link t2 k2 show ?thesis
    by blast
qed

section \<open>The entry point: lookup, arguments, exit status\<close>

lemma after_simps:
  "outcome (after out evs p) = outcome p"
  "printed (after out evs p) = out @ printed p"
  "events (after out evs p) = evs @ events p"
  by (simp_all add: after_def)

lemma stop_simps:
  "outcome (stop r out evs) = r"
  "printed (stop r out evs) = out"
  "events (stop r out evs) = evs"
  by (simp_all add: stop_def)

lemma events_invokeEntry: "events (invokeEntry H c f a) = [CallInvokeFunction f a]"
  by (simp add: invokeEntry_def stop_simps split: option.split prod.split)

lemma outcome_invokeEntry:
  "invokeFunctionChecked H c f a = Some (rs, c') \<Longrightarrow>
   outcome (invokeEntry H c f a) = Inr (exitStatus rs)"
  by (simp add: invokeEntry_def stop_simps)

lemma lookupEntryPoint_events:
  "lookupEntryPoint c inst = (r, ls) \<Longrightarrow>
   ls = [CallGetInstanceExport ''main'']
   \<or> ls = [CallGetInstanceExport ''main'', CallGetInstanceExport ''_main'']"
  by (auto simp: lookupEntryPoint_def split: option.splits)

lemma enterMain_none:
  "lookupEntryPoint c inst = (None, ls) \<Longrightarrow>
   enterMain H name options shim c inst =
     stop (Inr EXIT_FAILURE) [OutString ''Module does not export main function''] ls"
  by (simp add: enterMain_def)

lemma enterMain_arity0:
  "lookupEntryPoint c inst = (Some f, ls) \<Longrightarrow> length (params (getFunctionType c f)) = 0 \<Longrightarrow>
   enterMain H name options shim c inst = after [] ls (invokeEntry H c f [])"
  by (simp add: enterMain_def)

lemma enterMain_arity2:
  "lookupEntryPoint c inst = (Some f, ls) \<Longrightarrow> length (params (getFunctionType c f)) = 2 \<Longrightarrow>
   enterMain H name options (Some s) c inst =
     after [] (ls @ [CallInjectCommandArgs (name # args options)])
       (invokeEntry H c f (injectCommandArgs H s (name # args options)))"
  by (simp add: enterMain_def argStrings_def)

lemma enterMain_arity2_noshim:
  "lookupEntryPoint c inst = (Some f, ls) \<Longrightarrow> length (params (getFunctionType c f)) = 2 \<Longrightarrow>
   enterMain H name options None c inst = stop (Inl AssertionFailed) [] ls"
  by (simp add: enterMain_def)

lemma enterMain_other:
  "lookupEntryPoint c inst = (Some f, ls) \<Longrightarrow> length (params (getFunctionType c f)) \<noteq> 2 \<Longrightarrow>
   length (params (getFunctionType c f)) \<noteq> 0 \<Longrightarrow>
   enterMain H name options shim c inst =
     stop (Inr EXIT_FAILURE)
       [OutString ''WebAssembly function requires '', OutString PRIu64,
        OutString '' argument(s), but only 0 or 2 can be passed!'',
        OutNat (length (params (getFunctionType c f)))] ls"
  by (simp add: enterMain_def)

lemma lookupEntryPoint_main:
  "getInstanceExport inst ''main'' = Some f \<Longrightarrow> lookupObject c f = Some (FunctionObject t b n) \<Longrightarrow>
   lookupEntryPoint c inst = (Some f, [CallGetInstanceExport ''main''])"
  by (simp add: lookupEntryPoint_def asFunctionNullable_def)

lemma lookupEntryPoint__main:
  "getInstanceExport inst ''main'' = None \<Longrightarrow> getInstanceExport inst ''_main'' = Some g \<Longrightarrow>
   lookupObject c g = Some (FunctionObject t b n) \<Longrightarrow>
   lookupEntryPoint c inst =
     (Some g, [CallGetInstanceExport ''main'', CallGetInstanceExport ''_main''])"
  by (simp add: lookupEntryPoint_def asFunctionNullable_def)

lemma lookupEntryPoint_neither:
  "getInstanceExport inst ''main'' = None \<Longrightarrow> getInstanceExport inst ''_main'' = None \<Longrightarrow>
   lookupEntryPoint c inst =
     (None, [CallGetInstanceExport ''main'', CallGetInstanceExport ''_main''])"
  by (simp add: lookupEntryPoint_def asFunctionNullable_def)

lemma enterMain_invokes:
  assumes "lookupEntryPoint c inst = (Some f, ls)"
    and "CallInvokeFunction g a \<in> set (events (enterMain H name options shim c inst))"
  shows "g = f"
proof -
  from lookupEntryPoint_events [OF assms(1)] have ls: "CallInvokeFunction g a \<notin> set ls"
    by auto
  from assms ls show ?thesis
    by (auto simp: enterMain_def after_simps stop_simps events_invokeEntry Let_def
        split: option.splits if_splits)
qed

lemma example_lookup:
  "lookupEntryPoint (exampleFunctions ps) (exampleInstance [(''main'', 0)]) =
     (Some 0, [CallGetInstanceExport ''main''])"
  by (simp add: lookupEntryPoint_def asFunctionNullable_def getInstanceExport_def
      exampleInstance_def exampleFunctions_def)

lemma example_params:
  "params (getFunctionType (exampleFunctions ps) 0) = ps"
  by (simp add: getFunctionType_def exampleFunctions_def)

lemma example_exports:
  "getInstanceExport (exampleInstance ex) nm = map_of ex nm"
  by (simp add: getInstanceExport_def exampleInstance_def)

lemma exampleFunctions_lookup:
  "lookupObject (exampleFunctions ps) 0 =
     Some (FunctionObject \<lparr>results = [i32], params = ps\<rparr> [Op_end] ''main'')"
  "lookupObject (exampleFunctions ps) (Suc 0) =
     Some (FunctionObject \<lparr>results = [], params = []\<rparr> [Op_end] ''other'')"
  by (simp_all add: exampleFunctions_def)

lemma instantiate_exampleMain:
  "instantiateModule [] (compileModule (exampleMain ps)) [] name =
     (Some \<lparr>exportMap = [(''main'', 0)], instanceStartFunction = None, instanceDebugName = name\<rparr>,
      [FunctionObject \<lparr>results = [i32], params = ps\<rparr> [Op_end] []])"
  by (simp add: instantiateModule_def compileModule_def exampleMain_def emptyIRModule_def
      importedObjects_def functionObject_def functionName_def indexSpace_def
      resolveExport_def enumerate_eq_zip)

lemma link_exampleMain:
  "linkModule (exampleMain ps) r =
     Inr (\<lparr>resolvedImports = [], missingImports = [], success = True\<rparr>, r, [])"
  by (simp add: linkModule_def exampleMain_def emptyIRModule_def)

lemma run_exampleMain:
  "run (exampleHost (exampleMain ps) shim result) \<lparr>filename = Some name, args = as\<rparr> =
     after [] [CallLoadModule name, CallCompileModule, CallEmscriptenInstantiate, CallLinkModule,
               CallInstantiateModule name, CallInitializeGlobals]
       (enterMain (exampleHost (exampleMain ps) shim result) name
          \<lparr>filename = Some name, args = as\<rparr> shim
          [FunctionObject \<lparr>results = [i32], params = ps\<rparr> [Op_end] []]
          \<lparr>exportMap = [(''main'', 0)], instanceStartFunction = None,
            instanceDebugName = name\<rparr>)"
  by (cases shim)
    (simp_all add: run_def loadModule_exampleHost exampleHost_simps link_exampleMain
      registerShim_def RootResolver_new_def createCompartment_def instantiate_exampleMain
      runInstance_def getStartFunction_def initializeAndEnter_def after_def)

lemma lookup_exampleMain:
  "lookupEntryPoint [FunctionObject \<lparr>results = [i32], params = ps\<rparr> [Op_end] []]
     \<lparr>exportMap = [(''main'', 0)], instanceStartFunction = None, instanceDebugName = name\<rparr> =
     (Some 0, [CallGetInstanceExport ''main''])"
  by (simp add: lookupEntryPoint_def asFunctionNullable_def getInstanceExport_def)

lemma params_exampleMain:
  "params (getFunctionType [FunctionObject \<lparr>results = [i32], params = ps\<rparr> [Op_end] []] 0) = ps"
  by (simp add: getFunctionType_def)

lemma scanArgs_program:
  "f \<noteq> ''--help'' \<Longrightarrow> f \<noteq> ''-h'' \<Longrightarrow> a \<noteq> ''--help'' \<Longrightarrow> a \<noteq> ''-h'' \<Longrightarrow>
   scanArgs \<lparr>filename = None, args = x\<rparr> (f # a # rest) = Inr \<lparr>filename = Some f, args = a # rest\<rparr>"
  by simp

lemma scanArgs_program_only:
  "f \<noteq> ''--help'' \<Longrightarrow> f \<noteq> ''-h'' \<Longrightarrow>
   scanArgs \<lparr>filename = None, args = x\<rparr> [f] = Inr \<lparr>filename = Some f, args = []\<rparr>"
  by simp

lemma scanArgs_help_after:
  "f \<noteq> ''--help'' \<Longrightarrow> f \<noteq> ''-h'' \<Longrightarrow> a = ''--help'' \<or> a = ''-h'' \<Longrightarrow>
   scanArgs \<lparr>filename = None, args = x\<rparr> (f # a # rest) = Inl EXIT_SUCCESS"
  by auto

lemma main_program:
  "f \<noteq> ''--help'' \<Longrightarrow> f \<noteq> ''-h'' \<Longrightarrow> a \<noteq> ''--help'' \<Longrightarrow> a \<noteq> ''-h'' \<Longrightarrow>
   main H (argv0 # f # a # rest) = run H \<lparr>filename = Some f, args = a # rest\<rparr>"
  by (simp add: main_def)

lemma events_run_nonempty: "events (run H \<lparr>filename = Some n, args = a\<rparr>) \<noteq> []"
  by (simp add: run_def stop_simps after_simps Let_def split: prod.split option.split sum.split)

text \<open>
  C5. The result of the entry-point call becomes the exit status: exactly one result of
  type \<open>i32\<close> is returned as it is; a single result of another type, no result and
  several results all give \<open>EXIT_SUCCESS\<close>.
\<close>

theorem exit_status_of_results:
  "invokeFunctionChecked H c function invokeArgs = Some (functionResults, c') \<longrightarrow>
     (functionResults = [v] \<and> valueTag v = i32 \<longrightarrow>
        outcome (invokeEntry H c function invokeArgs) = Inr (sint (value_i32 v)))
     \<and> (functionResults = [v] \<and> valueTag v \<noteq> i32 \<longrightarrow>
        outcome (invokeEntry H c function invokeArgs) = Inr EXIT_SUCCESS)
     \<and> (length functionResults \<noteq> 1 \<longrightarrow>
        outcome (invokeEntry H c function invokeArgs) = Inr EXIT_SUCCESS)"
  by (simp add: outcome_invokeEntry exitStatus_def)

theorem exit_status_of_results_witness:
  "invokeFunctionChecked (exampleHost emptyIRModule None (Some [mkValue i32 7]))
     (exampleFunctions []) 0 [] = Some ([mkValue i32 7], exampleFunctions [])
   \<and> valueTag (mkValue i32 7) = i32
   \<and> outcome (invokeEntry (exampleHost emptyIRModule None (Some [mkValue i32 7]))
                 (exampleFunctions []) 0 []) = Inr 7
   \<and> invokeFunctionChecked (exampleHost emptyIRModule None (Some [mkValue i64 7]))
       (exampleFunctions []) 0 [] = Some ([mkValue i64 7], exampleFunctions [])
   \<and> valueTag (mkValue i64 7) \<noteq> i32
   \<and> outcome (invokeEntry (exampleHost emptyIRModule None (Some [mkValue i64 7]))
                 (exampleFunctions []) 0 []) = Inr EXIT_SUCCESS
   \<and> invokeFunctionChecked (exampleHost emptyIRModule None (Some []))
       (exampleFunctions []) 0 [] = Some ([], exampleFunctions [])
   \<and> outcome (invokeEntry (exampleHost emptyIRModule None (Some []))
                 (exampleFunctions []) 0 []) = Inr EXIT_SUCCESS
   \<and> invokeFunctionChecked (exampleHost emptyIRModule None (Some [mkValue i32 7, mkValue i32 8]))
       (exampleFunctions []) 0 [] = Some ([mkValue i32 7, mkValue i32 8], exampleFunctions [])
   \<and> outcome (invokeEntry (exampleHost emptyIRModule None (Some [mkValue i32 7, mkValue i32 8]))
                 (exampleFunctions []) 0 []) = Inr EXIT_SUCCESS"
proof -
  have v: "sint (value_i32 (mkValue i32 7)) = 7"
    by (simp add: value_i32_def mkValue_def)
  note a = exit_status_of_results
    [of "exampleHost emptyIRModule None (Some [mkValue i32 7])" "exampleFunctions []" 0 "[]"
      "[mkValue i32 7]" "exampleFunctions []" "mkValue i32 7"]
  note b = exit_status_of_results
    [of "exampleHost emptyIRModule None (Some [mkValue i64 7])" "exampleFunctions []" 0 "[]"
      "[mkValue i64 7]" "exampleFunctions []" "mkValue i64 7"]
  note c = exit_status_of_results
    [of "exampleHost emptyIRModule None (Some [])" "exampleFunctions []" 0 "[]"
      "[]" "exampleFunctions []"]
  note d = exit_status_of_results
    [of "exampleHost emptyIRModule None (Some [mkValue i32 7, mkValue i32 8])"
      "exampleFunctions []" 0 "[]" "[mkValue i32 7, mkValue i32 8]" "exampleFunctions []"]
  from a b c d show ?thesis
    by (simp add: exampleHost_simps v) (simp add: mkValue_def)
qed

text \<open>
  C4. The dispatch on the number of parameters of the entry point: with none, the
  function is called with no arguments and \<open>injectCommandArgs\<close> is not called; with two,
  the file name followed by the command-line arguments is passed to \<open>injectCommandArgs\<close>
  of the shim and the function is called with what it returns, and without a shim the
  assertion fails before any call; with any other number the run ends with
  \<open>EXIT_FAILURE\<close> and a diagnostic, and the function is not called.
\<close>

theorem entry_point_arity_dispatch:
  "lookupEntryPoint c inst = (Some f, ls) \<longrightarrow>
     (length (params (getFunctionType c f)) = 0 \<longrightarrow>
        events (enterMain H name options shim c inst) = ls @ [CallInvokeFunction f []]
        \<and> outcome (enterMain H name options shim c inst) = outcome (invokeEntry H c f []))
     \<and> (length (params (getFunctionType c f)) = 2 \<longrightarrow>
        (\<forall>s. shim = Some s \<longrightarrow>
           events (enterMain H name options shim c inst) =
             ls @ [CallInjectCommandArgs (name # args options),
                   CallInvokeFunction f (injectCommandArgs H s (name # args options))])
        \<and> (shim = None \<longrightarrow>
             enterMain H name options shim c inst = stop (Inl AssertionFailed) [] ls))
     \<and> (length (params (getFunctionType c f)) \<noteq> 0
        \<and> length (params (getFunctionType c f)) \<noteq> 2 \<longrightarrow>
        enterMain H name options shim c inst =
          stop (Inr EXIT_FAILURE)
            [OutString ''WebAssembly function requires '', OutString PRIu64,
             OutString '' argument(s), but only 0 or 2 can be passed!'',
             OutNat (length (params (getFunctionType c f)))] ls)
     \<and> (\<forall>g a. CallInvokeFunction g a \<notin> set ls)
     \<and> (\<forall>a. CallInjectCommandArgs a \<notin> set ls)"
proof (intro impI conjI allI)
  assume l: "lookupEntryPoint c inst = (Some f, ls)"
  {
    assume "length (params (getFunctionType c f)) = 0"
    with l have e: "enterMain H name options shim c inst = after [] ls (invokeEntry H c f [])"
      by (rule enterMain_arity0)
    show "events (enterMain H name options shim c inst) = ls @ [CallInvokeFunction f []]"
      by (simp add: e after_simps events_invokeEntry)
    show "outcome (enterMain H name options shim c inst) = outcome (invokeEntry H c f [])"
      by (simp add: e after_simps)
  }
  {
    fix s
    assume "length (params (getFunctionType c f)) = 2" and "shim = Some s"
    with l show "events (enterMain H name options shim c inst) =
        ls @ [CallInjectCommandArgs (name # args options),
              CallInvokeFunction f (injectCommandArgs H s (name # args options))]"
      by (simp add: enterMain_arity2 after_simps events_invokeEntry)
  }
  {
    assume "length (params (getFunctionType c f)) = 2" and "shim = None"
    with l show "enterMain H name options shim c inst = stop (Inl AssertionFailed) [] ls"
      by (simp add: enterMain_arity2_noshim)
  }
  {
    assume "length (params (getFunctionType c f)) \<noteq> 0
        \<and> length (params (getFunctionType c f)) \<noteq> 2"
    with l show "enterMain H name options shim c inst =
          stop (Inr EXIT_FAILURE)
            [OutString ''WebAssembly function requires '', OutString PRIu64,
             OutString '' argument(s), but only 0 or 2 can be passed!'',
             OutNat (length (params (getFunctionType c f)))] ls"
      by (simp add: enterMain_other)
  }
  {
    fix g a
    from lookupEntryPoint_events [OF l] show "CallInvokeFunction g a \<notin> set ls"
      by auto
  }
  {
    fix a
    from lookupEntryPoint_events [OF l] show "CallInjectCommandArgs a \<notin> set ls"
      by auto
  }
qed

theorem entry_point_arity_dispatch_witness:
  "lookupEntryPoint (exampleFunctions []) (exampleInstance [(''main'', 0)]) =
     (Some 0, [CallGetInstanceExport ''main''])
   \<and> length (params (getFunctionType (exampleFunctions []) 0)) = 0
   \<and> events (enterMain (exampleHost emptyIRModule None (Some [])) ''prog.wast''
               \<lparr>filename = Some ''prog.wast'', args = [''a'']\<rparr> None (exampleFunctions [])
               (exampleInstance [(''main'', 0)])) =
       [CallGetInstanceExport ''main'', CallInvokeFunction 0 []]
   \<and> length (params (getFunctionType (exampleFunctions [i32, i32]) 0)) = 2
   \<and> events (enterMain (exampleHost emptyIRModule None (Some [])) ''prog.wast''
               \<lparr>filename = Some ''prog.wast'', args = [''a'']\<rparr> (Some exampleShim)
               (exampleFunctions [i32, i32]) (exampleInstance [(''main'', 0)])) =
       [CallGetInstanceExport ''main'', CallInjectCommandArgs [''prog.wast'', ''a''],
        CallInvokeFunction 0 [mkValue i32 2, mkValue i32 0]]
   \<and> enterMain (exampleHost emptyIRModule None (Some [])) ''prog.wast''
        \<lparr>filename = Some ''prog.wast'', args = [''a'']\<rparr> None
        (exampleFunctions [i32, i32]) (exampleInstance [(''main'', 0)]) =
       stop (Inl AssertionFailed) [] [CallGetInstanceExport ''main'']
   \<and> length (params (getFunctionType (exampleFunctions [i32]) 0)) = 1
   \<and> enterMain (exampleHost emptyIRModule None (Some [])) ''prog.wast''
        \<lparr>filename = Some ''prog.wast'', args = [''a'']\<rparr> None
        (exampleFunctions [i32]) (exampleInstance [(''main'', 0)]) =
       stop (Inr EXIT_FAILURE)
         [OutString ''WebAssembly function requires '', OutString PRIu64,
          OutString '' argument(s), but only 0 or 2 can be passed!'', OutNat 1]
         [CallGetInstanceExport ''main'']"
proof -
  note l = example_lookup
  have p0: "length (params (getFunctionType (exampleFunctions []) 0)) = 0"
    and p2: "length (params (getFunctionType (exampleFunctions [i32, i32]) 0)) = 2"
    and p1: "length (params (getFunctionType (exampleFunctions [i32]) 0)) = 1"
    by (simp_all add: example_params)
  note t0 = entry_point_arity_dispatch
    [of "exampleFunctions []" "exampleInstance [(''main'', 0)]" 0 "[CallGetInstanceExport ''main'']"
      "exampleHost emptyIRModule None (Some [])" "''prog.wast''"
      "\<lparr>filename = Some ''prog.wast'', args = [''a'']\<rparr>" None]
  note t2 = entry_point_arity_dispatch
    [of "exampleFunctions [i32, i32]" "exampleInstance [(''main'', 0)]" 0
      "[CallGetInstanceExport ''main'']"
      "exampleHost emptyIRModule None (Some [])" "''prog.wast''"
      "\<lparr>filename = Some ''prog.wast'', args = [''a'']\<rparr>" "Some exampleShim"]
  note t2n = entry_point_arity_dispatch
    [of "exampleFunctions [i32, i32]" "exampleInstance [(''main'', 0)]" 0
      "[CallGetInstanceExport ''main'']"
      "exampleHost emptyIRModule None (Some [])" "''prog.wast''"
      "\<lparr>filename = Some ''prog.wast'', args = [''a'']\<rparr>" None]
  note t1 = entry_point_arity_dispatch
    [of "exampleFunctions [i32]" "exampleInstance [(''main'', 0)]" 0
      "[CallGetInstanceExport ''main'']"
      "exampleHost emptyIRModule None (Some [])" "''prog.wast''"
      "\<lparr>filename = Some ''prog.wast'', args = [''a'']\<rparr>" None]
  from t0 t2 t2n t1 show ?thesis
    by (simp add: l p0 p1 p2 exampleHost_simps)
qed

text \<open>
  C7. The export \<open>main\<close> is looked up first and \<open>_main\<close> only when there is no \<open>main\<close>;
  when \<open>main\<close> is exported it is the only function the run calls, whatever \<open>_main\<close> is;
  when neither is exported the run ends with \<open>EXIT_FAILURE\<close> and the diagnostic that the
  module does not export a main function, and nothing is called.
\<close>

theorem entry_point_lookup_order:
  "(getInstanceExport inst ''main'' = Some f \<and> lookupObject c f = Some (FunctionObject t b n) \<longrightarrow>
      lookupEntryPoint c inst = (Some f, [CallGetInstanceExport ''main''])
      \<and> (\<forall>g a. CallInvokeFunction g a \<in> set (events (enterMain H name options shim c inst))
                 \<longrightarrow> g = f)
      \<and> (params t = [] \<longrightarrow>
           events (enterMain H name options shim c inst) =
             [CallGetInstanceExport ''main'', CallInvokeFunction f []]))
   \<and> (getInstanceExport inst ''main'' = None \<and> getInstanceExport inst ''_main'' = Some f
       \<and> lookupObject c f = Some (FunctionObject t b n) \<longrightarrow>
      lookupEntryPoint c inst =
        (Some f, [CallGetInstanceExport ''main'', CallGetInstanceExport ''_main''])
      \<and> (\<forall>g a. CallInvokeFunction g a \<in> set (events (enterMain H name options shim c inst))
                 \<longrightarrow> g = f)
      \<and> (params t = [] \<longrightarrow>
           events (enterMain H name options shim c inst) =
             [CallGetInstanceExport ''main'', CallGetInstanceExport ''_main'',
              CallInvokeFunction f []]))
   \<and> (getInstanceExport inst ''main'' = None \<and> getInstanceExport inst ''_main'' = None \<longrightarrow>
      enterMain H name options shim c inst =
        stop (Inr EXIT_FAILURE) [OutString ''Module does not export main function'']
          [CallGetInstanceExport ''main'', CallGetInstanceExport ''_main''])"
proof (intro conjI impI allI)
  {
    assume a: "getInstanceExport inst ''main'' = Some f
      \<and> lookupObject c f = Some (FunctionObject t b n)"
    then show l: "lookupEntryPoint c inst = (Some f, [CallGetInstanceExport ''main''])"
      by (simp add: lookupEntryPoint_main)
    {
      fix g a
      assume "CallInvokeFunction g a \<in> set (events (enterMain H name options shim c inst))"
      with l show "g = f" by (rule enterMain_invokes)
    }
    assume "params t = []"
    with a have "length (params (getFunctionType c f)) = 0"
      by (simp add: getFunctionType_def)
    with l show "events (enterMain H name options shim c inst) =
        [CallGetInstanceExport ''main'', CallInvokeFunction f []]"
      by (simp add: enterMain_arity0 after_simps events_invokeEntry)
  }
  {
    assume a: "getInstanceExport inst ''main'' = None \<and> getInstanceExport inst ''_main'' = Some f
      \<and> lookupObject c f = Some (FunctionObject t b n)"
    then show l: "lookupEntryPoint c inst =
        (Some f, [CallGetInstanceExport ''main'', CallGetInstanceExport ''_main''])"
      by (simp add: lookupEntryPoint__main)
    {
      fix g a
      assume "CallInvokeFunction g a \<in> set (events (enterMain H name options shim c inst))"
      with l show "g = f" by (rule enterMain_invokes)
    }
    assume "params t = []"
    with a have "length (params (getFunctionType c f)) = 0"
      by (simp add: getFunctionType_def)
    with l show "events (enterMain H name options shim c inst) =
        [CallGetInstanceExport ''main'', CallGetInstanceExport ''_main'',
         CallInvokeFunction f []]"
      by (simp add: enterMain_arity0 after_simps events_invokeEntry)
  }
  {
    assume "getInstanceExport inst ''main'' = None \<and> getInstanceExport inst ''_main'' = None"
    then show "enterMain H name options shim c inst =
        stop (Inr EXIT_FAILURE) [OutString ''Module does not export main function'']
          [CallGetInstanceExport ''main'', CallGetInstanceExport ''_main'']"
      by (simp add: lookupEntryPoint_neither enterMain_none)
  }
qed

theorem entry_point_lookup_order_witness:
  "getInstanceExport (exampleInstance [(''main'', 0), (''_main'', 1)]) ''main'' = Some 0
   \<and> getInstanceExport (exampleInstance [(''main'', 0), (''_main'', 1)]) ''_main'' = Some 1
   \<and> lookupObject (exampleFunctions []) 0 =
       Some (FunctionObject \<lparr>results = [i32], params = []\<rparr> [Op_end] ''main'')
   \<and> events (enterMain (exampleHost emptyIRModule None (Some [])) ''prog.wast''
               \<lparr>filename = Some ''prog.wast'', args = []\<rparr> None (exampleFunctions [])
               (exampleInstance [(''main'', 0), (''_main'', 1)])) =
       [CallGetInstanceExport ''main'', CallInvokeFunction 0 []]
   \<and> getInstanceExport (exampleInstance [(''_main'', 1)]) ''main'' = None
   \<and> getInstanceExport (exampleInstance [(''_main'', 1)]) ''_main'' = Some 1
   \<and> lookupObject (exampleFunctions []) 1 =
       Some (FunctionObject \<lparr>results = [], params = []\<rparr> [Op_end] ''other'')
   \<and> events (enterMain (exampleHost emptyIRModule None (Some [])) ''prog.wast''
               \<lparr>filename = Some ''prog.wast'', args = []\<rparr> None (exampleFunctions [])
               (exampleInstance [(''_main'', 1)])) =
       [CallGetInstanceExport ''main'', CallGetInstanceExport ''_main'', CallInvokeFunction 1 []]
   \<and> getInstanceExport (exampleInstance [(''start'', 0)]) ''main'' = None
   \<and> getInstanceExport (exampleInstance [(''start'', 0)]) ''_main'' = None
   \<and> enterMain (exampleHost emptyIRModule None (Some [])) ''prog.wast''
        \<lparr>filename = Some ''prog.wast'', args = []\<rparr> None (exampleFunctions [])
        (exampleInstance [(''start'', 0)]) =
       stop (Inr EXIT_FAILURE) [OutString ''Module does not export main function'']
         [CallGetInstanceExport ''main'', CallGetInstanceExport ''_main'']"
proof -
  note a = entry_point_lookup_order
    [of "exampleInstance [(''main'', 0), (''_main'', 1)]" 0 "exampleFunctions []"
      "\<lparr>results = [i32], params = []\<rparr>" "[Op_end]" "''main''"
      "exampleHost emptyIRModule None (Some [])" "''prog.wast''"
      "\<lparr>filename = Some ''prog.wast'', args = []\<rparr>" None]
  note b = entry_point_lookup_order
    [of "exampleInstance [(''_main'', 1)]" 1 "exampleFunctions []"
      "\<lparr>results = [], params = []\<rparr>" "[Op_end]" "''other''"
      "exampleHost emptyIRModule None (Some [])" "''prog.wast''"
      "\<lparr>filename = Some ''prog.wast'', args = []\<rparr>" None]
  note c = entry_point_lookup_order
    [of "exampleInstance [(''start'', 0)]" 0 "exampleFunctions []"
      "\<lparr>results = [i32], params = []\<rparr>" "[Op_end]" "''main''"
      "exampleHost emptyIRModule None (Some [])" "''prog.wast''"
      "\<lparr>filename = Some ''prog.wast'', args = []\<rparr>" None]
  from a b c show ?thesis
    by (simp add: example_exports exampleFunctions_lookup)
qed

section \<open>The command line\<close>

text \<open>
  C10. A \<open>--\<close> after the file name is not stripped: the options keep every token from the
  one that ended the scan on, the \<open>--\<close> among them, and for an entry point with two
  parameters the strings passed to \<open>injectCommandArgs\<close> are the file name followed by
  all of them.
\<close>

theorem double_dash_not_stripped:
  "f \<noteq> ''--help'' \<and> f \<noteq> ''-h'' \<and> (pre \<noteq> [] \<longrightarrow> hd pre \<noteq> ''--help'' \<and> hd pre \<noteq> ''-h'') \<longrightarrow>
     main H (argv0 # f # pre @ ''--'' # post) =
       run H \<lparr>filename = Some f, args = pre @ ''--'' # post\<rparr>
     \<and> argStrings f \<lparr>filename = Some f, args = pre @ ''--'' # post\<rparr> = f # pre @ ''--'' # post
     \<and> (lookupEntryPoint c inst = (Some fn, ls) \<and> length (params (getFunctionType c fn)) = 2 \<longrightarrow>
          events (enterMain H f \<lparr>filename = Some f, args = pre @ ''--'' # post\<rparr> (Some shim) c inst)
          = ls @ [CallInjectCommandArgs (f # pre @ ''--'' # post),
                  CallInvokeFunction fn (injectCommandArgs H shim (f # pre @ ''--'' # post))])"
proof (intro impI conjI)
  assume a: "f \<noteq> ''--help'' \<and> f \<noteq> ''-h'' \<and> (pre \<noteq> [] \<longrightarrow> hd pre \<noteq> ''--help'' \<and> hd pre \<noteq> ''-h'')"
  show "main H (argv0 # f # pre @ ''--'' # post) =
      run H \<lparr>filename = Some f, args = pre @ ''--'' # post\<rparr>"
  proof (cases pre)
    case Nil
    with a show ?thesis by (simp add: main_program)
  next
    case (Cons p ps)
    with a show ?thesis by (simp add: main_program)
  qed
  show "argStrings f \<lparr>filename = Some f, args = pre @ ''--'' # post\<rparr> = f # pre @ ''--'' # post"
    by (simp add: argStrings_def)
  assume "lookupEntryPoint c inst = (Some fn, ls) \<and> length (params (getFunctionType c fn)) = 2"
  then show "events (enterMain H f \<lparr>filename = Some f, args = pre @ ''--'' # post\<rparr> (Some shim) c inst)
          = ls @ [CallInjectCommandArgs (f # pre @ ''--'' # post),
                  CallInvokeFunction fn (injectCommandArgs H shim (f # pre @ ''--'' # post))]"
    by (simp add: enterMain_arity2 after_simps events_invokeEntry)
qed

theorem double_dash_not_stripped_witness:
  "''prog.wast'' \<noteq> ''--help'' \<and> ''prog.wast'' \<noteq> ''-h''
   \<and> main (exampleHost (exampleMain [i32, i32]) (Some exampleShim) (Some [mkValue i32 0]))
        [''wavm-run'', ''prog.wast'', ''--'', ''a''] =
      run (exampleHost (exampleMain [i32, i32]) (Some exampleShim) (Some [mkValue i32 0]))
        \<lparr>filename = Some ''prog.wast'', args = [''--'', ''a'']\<rparr>
   \<and> lookupEntryPoint [FunctionObject \<lparr>results = [i32], params = [i32, i32]\<rparr> [Op_end] []]
        \<lparr>exportMap = [(''main'', 0)], instanceStartFunction = None,
          instanceDebugName = ''prog.wast''\<rparr> = (Some 0, [CallGetInstanceExport ''main''])
   \<and> length (params (getFunctionType
        [FunctionObject \<lparr>results = [i32], params = [i32, i32]\<rparr> [Op_end] []] 0)) = 2
   \<and> events (main (exampleHost (exampleMain [i32, i32]) (Some exampleShim) (Some [mkValue i32 0]))
               [''wavm-run'', ''prog.wast'', ''--'', ''a'']) =
      [CallLoadModule ''prog.wast'', CallCompileModule, CallEmscriptenInstantiate, CallLinkModule,
       CallInstantiateModule ''prog.wast'', CallInitializeGlobals, CallGetInstanceExport ''main'',
       CallInjectCommandArgs [''prog.wast'', ''--'', ''a''],
       CallInvokeFunction 0 [mkValue i32 3, mkValue i32 0]]"
proof -
  have f: "''prog.wast'' \<noteq> ''--help'' \<and> ''prog.wast'' \<noteq> ''-h''
      \<and> (([]::string list) \<noteq> [] \<longrightarrow> hd [] \<noteq> ''--help'' \<and> hd [] \<noteq> ''-h'')"
    by simp
  note t = double_dash_not_stripped
    [of "''prog.wast''" "[]"
      "exampleHost (exampleMain [i32, i32]) (Some exampleShim) (Some [mkValue i32 0])"
      "''wavm-run''" "[''a'']"
      "[FunctionObject \<lparr>results = [i32], params = [i32, i32]\<rparr> [Op_end] []]"
      "\<lparr>exportMap = [(''main'', 0)], instanceStartFunction = None,
        instanceDebugName = ''prog.wast''\<rparr>" 0 "[CallGetInstanceExport ''main'']" exampleShim]
  from t f show ?thesis
    by (simp add: lookup_exampleMain params_exampleMain run_exampleMain after_simps
        exampleHost_simps)
qed

text \<open>
  C6, as stated, fails: a \<open>-h\<close> right after the file name is taken as the help option,
  so the tokens after the file name are not passed on and nothing is run; and a token
  that is no option becomes the file name when none is set yet, it does not end the scan.
\<close>

theorem tokens_after_filename_counterexample:
  "main (exampleHost (exampleMain [i32, i32]) (Some exampleShim) (Some [mkValue i32 0]))
     [''wavm-run'', ''prog.wast'', ''-h'', ''a''] = stop (Inr EXIT_SUCCESS) showHelp []
   \<and> main (exampleHost (exampleMain [i32, i32]) (Some exampleShim) (Some [mkValue i32 0]))
       [''wavm-run'', ''prog.wast'', ''-h'', ''a''] \<noteq>
      run (exampleHost (exampleMain [i32, i32]) (Some exampleShim) (Some [mkValue i32 0]))
       \<lparr>filename = Some ''prog.wast'', args = [''-h'', ''a'']\<rparr>
   \<and> main (exampleHost (exampleMain [i32, i32]) (Some exampleShim) (Some [mkValue i32 0]))
       [''wavm-run'', ''--verbose'', ''prog.wast'', ''a''] =
      run (exampleHost (exampleMain [i32, i32]) (Some exampleShim) (Some [mkValue i32 0]))
       \<lparr>filename = Some ''--verbose'', args = [''prog.wast'', ''a'']\<rparr>"
proof -
  have "events (main (exampleHost (exampleMain [i32, i32]) (Some exampleShim) (Some [mkValue i32 0]))
     [''wavm-run'', ''prog.wast'', ''-h'', ''a'']) = []"
    by (simp add: main_def stop_simps)
  then have "main (exampleHost (exampleMain [i32, i32]) (Some exampleShim) (Some [mkValue i32 0]))
       [''wavm-run'', ''prog.wast'', ''-h'', ''a''] \<noteq>
      run (exampleHost (exampleMain [i32, i32]) (Some exampleShim) (Some [mkValue i32 0]))
       \<lparr>filename = Some ''prog.wast'', args = [''-h'', ''a'']\<rparr>"
    using events_run_nonempty by metis
  then show ?thesis
    by (simp add: main_def)
qed

text \<open>
  C6, amended. Every token, from the first, is tested for \<open>-h\<close> and \<open>--help\<close> before
  anything else: when the first token, or the token right after the file name, is one of
  them, the usage is printed and the exit status is \<open>EXIT_SUCCESS\<close>, and nothing is run;
  with no token at all the usage is printed and the exit status is \<open>EXIT_FAILURE\<close>.
  Otherwise the first token is the file name, whatever it is, and the token after it ends
  the scan: it and every later token are kept as they are, in order, as the program
  arguments. What the entry point gets of them depends on its parameters: with two
  parameters and a shim, the file name followed by all of them is marshalled as it is,
  and without a shim the assertion fails; with no parameter the entry point is called
  without arguments, so they are not passed on; with any other number nothing is
  marshalled or called.
\<close>

theorem tokens_after_filename:
  "main H [argv0] = stop (Inr EXIT_FAILURE) showHelp []
   \<and> (f = ''--help'' \<or> f = ''-h'' \<longrightarrow>
        main H (argv0 # f # rest) = stop (Inr EXIT_SUCCESS) showHelp [])
   \<and> (f \<noteq> ''--help'' \<and> f \<noteq> ''-h'' \<longrightarrow>
        main H [argv0, f] = run H \<lparr>filename = Some f, args = []\<rparr>
        \<and> (a = ''--help'' \<or> a = ''-h'' \<longrightarrow>
             main H (argv0 # f # a # rest) = stop (Inr EXIT_SUCCESS) showHelp [])
        \<and> (a \<noteq> ''--help'' \<and> a \<noteq> ''-h'' \<longrightarrow>
             main H (argv0 # f # a # rest) = run H \<lparr>filename = Some f, args = a # rest\<rparr>
             \<and> argStrings f \<lparr>filename = Some f, args = a # rest\<rparr> = f # a # rest
             \<and> (lookupEntryPoint c inst = (Some fn, ls) \<longrightarrow>
                  (length (params (getFunctionType c fn)) = 2 \<longrightarrow>
                     events (enterMain H f \<lparr>filename = Some f, args = a # rest\<rparr> (Some s) c inst)
                       = ls @ [CallInjectCommandArgs (f # a # rest),
                               CallInvokeFunction fn (injectCommandArgs H s (f # a # rest))]
                     \<and> enterMain H f \<lparr>filename = Some f, args = a # rest\<rparr> None c inst
                       = stop (Inl AssertionFailed) [] ls)
                  \<and> (length (params (getFunctionType c fn)) = 0 \<longrightarrow>
                       events (enterMain H f \<lparr>filename = Some f, args = a # rest\<rparr> shim c inst)
                         = ls @ [CallInvokeFunction fn []])
                  \<and> (length (params (getFunctionType c fn)) \<noteq> 0
                       \<and> length (params (getFunctionType c fn)) \<noteq> 2 \<longrightarrow>
                       events (enterMain H f \<lparr>filename = Some f, args = a # rest\<rparr> shim c inst)
                         = ls)
                  \<and> (\<forall>x. CallInjectCommandArgs x \<notin> set ls))))"
proof (intro conjI impI allI)
  show "main H [argv0] = stop (Inr EXIT_FAILURE) showHelp []"
    by (simp add: main_def)
  {
    assume "f = ''--help'' \<or> f = ''-h''"
    then show "main H (argv0 # f # rest) = stop (Inr EXIT_SUCCESS) showHelp []"
      by (auto simp: main_def)
  }
  assume f: "f \<noteq> ''--help'' \<and> f \<noteq> ''-h''"
  then show "main H [argv0, f] = run H \<lparr>filename = Some f, args = []\<rparr>"
    by (simp add: main_def)
  {
    assume "a = ''--help'' \<or> a = ''-h''"
    with f have "scanArgs \<lparr>filename = None, args = argv0 # f # a # rest\<rparr> (f # a # rest)
        = Inl EXIT_SUCCESS"
      by (rule_tac scanArgs_help_after) simp_all
    then show "main H (argv0 # f # a # rest) = stop (Inr EXIT_SUCCESS) showHelp []"
      by (simp add: main_def)
  }
  assume "a \<noteq> ''--help'' \<and> a \<noteq> ''-h''"
  with f show "main H (argv0 # f # a # rest) = run H \<lparr>filename = Some f, args = a # rest\<rparr>"
    by (simp add: main_program)
  show "argStrings f \<lparr>filename = Some f, args = a # rest\<rparr> = f # a # rest"
    by (simp add: argStrings_def)
  assume l: "lookupEntryPoint c inst = (Some fn, ls)"
  {
    assume p: "length (params (getFunctionType c fn)) = 2"
    from l p show "events (enterMain H f \<lparr>filename = Some f, args = a # rest\<rparr> (Some s) c inst)
        = ls @ [CallInjectCommandArgs (f # a # rest),
                CallInvokeFunction fn (injectCommandArgs H s (f # a # rest))]"
      by (simp add: enterMain_arity2 after_simps events_invokeEntry)
    from l p show "enterMain H f \<lparr>filename = Some f, args = a # rest\<rparr> None c inst
        = stop (Inl AssertionFailed) [] ls"
      by (simp add: enterMain_arity2_noshim)
  }
  {
    assume "length (params (getFunctionType c fn)) = 0"
    with l show "events (enterMain H f \<lparr>filename = Some f, args = a # rest\<rparr> shim c inst)
        = ls @ [CallInvokeFunction fn []]"
      by (simp add: enterMain_arity0 after_simps events_invokeEntry)
  }
  {
    assume "length (params (getFunctionType c fn)) \<noteq> 0
        \<and> length (params (getFunctionType c fn)) \<noteq> 2"
    with l show "events (enterMain H f \<lparr>filename = Some f, args = a # rest\<rparr> shim c inst) = ls"
      by (simp add: enterMain_other stop_simps)
  }
  {
    fix x
    from lookupEntryPoint_events [OF l] show "CallInjectCommandArgs x \<notin> set ls"
      by auto
  }
qed

theorem tokens_after_filename_witness:
  "main (exampleHost (exampleMain [i32, i32]) (Some exampleShim) (Some [mkValue i32 0]))
     [''wavm-run'', ''-h'', ''prog.wast''] = stop (Inr EXIT_SUCCESS) showHelp []
   \<and> ''prog.wast'' \<noteq> ''--help'' \<and> ''prog.wast'' \<noteq> ''-h''
   \<and> ''x'' \<noteq> ''--help'' \<and> ''x'' \<noteq> ''-h''
   \<and> main (exampleHost (exampleMain [i32, i32]) (Some exampleShim) (Some [mkValue i32 0]))
        [''wavm-run'', ''prog.wast''] =
      run (exampleHost (exampleMain [i32, i32]) (Some exampleShim) (Some [mkValue i32 0]))
        \<lparr>filename = Some ''prog.wast'', args = []\<rparr>
   \<and> main (exampleHost (exampleMain [i32, i32]) (Some exampleShim) (Some [mkValue i32 0]))
        [''wavm-run'', ''prog.wast'', ''--help'', ''x''] = stop (Inr EXIT_SUCCESS) showHelp []
   \<and> main (exampleHost (exampleMain [i32, i32]) (Some exampleShim) (Some [mkValue i32 0]))
        [''wavm-run'', ''prog.wast'', ''x'', ''-h''] =
      run (exampleHost (exampleMain [i32, i32]) (Some exampleShim) (Some [mkValue i32 0]))
        \<lparr>filename = Some ''prog.wast'', args = [''x'', ''-h'']\<rparr>
   \<and> lookupEntryPoint [FunctionObject \<lparr>results = [i32], params = [i32, i32]\<rparr> [Op_end] []]
        \<lparr>exportMap = [(''main'', 0)], instanceStartFunction = None,
          instanceDebugName = ''prog.wast''\<rparr> = (Some 0, [CallGetInstanceExport ''main''])
   \<and> length (params (getFunctionType
        [FunctionObject \<lparr>results = [i32], params = [i32, i32]\<rparr> [Op_end] []] 0)) = 2
   \<and> events (main (exampleHost (exampleMain [i32, i32]) (Some exampleShim) (Some [mkValue i32 0]))
               [''wavm-run'', ''prog.wast'', ''x'', ''-h'']) =
      [CallLoadModule ''prog.wast'', CallCompileModule, CallEmscriptenInstantiate, CallLinkModule,
       CallInstantiateModule ''prog.wast'', CallInitializeGlobals, CallGetInstanceExport ''main'',
       CallInjectCommandArgs [''prog.wast'', ''x'', ''-h''],
       CallInvokeFunction 0 [mkValue i32 3, mkValue i32 0]]
   \<and> lookupEntryPoint [FunctionObject \<lparr>results = [i32], params = []\<rparr> [Op_end] []]
        \<lparr>exportMap = [(''main'', 0)], instanceStartFunction = None,
          instanceDebugName = ''prog.wast''\<rparr> = (Some 0, [CallGetInstanceExport ''main''])
   \<and> length (params (getFunctionType
        [FunctionObject \<lparr>results = [i32], params = []\<rparr> [Op_end] []] 0)) = 0
   \<and> events (main (exampleHost (exampleMain []) (Some exampleShim) (Some [mkValue i32 0]))
               [''wavm-run'', ''prog.wast'', ''x'', ''-h'']) =
      [CallLoadModule ''prog.wast'', CallCompileModule, CallEmscriptenInstantiate, CallLinkModule,
       CallInstantiateModule ''prog.wast'', CallInitializeGlobals, CallGetInstanceExport ''main'',
       CallInvokeFunction 0 []]
   \<and> length (params (getFunctionType
        [FunctionObject \<lparr>results = [i32], params = [i32]\<rparr> [Op_end] []] 0)) = 1
   \<and> events (main (exampleHost (exampleMain [i32]) (Some exampleShim) (Some [mkValue i32 0]))
               [''wavm-run'', ''prog.wast'', ''x'', ''-h'']) =
      [CallLoadModule ''prog.wast'', CallCompileModule, CallEmscriptenInstantiate, CallLinkModule,
       CallInstantiateModule ''prog.wast'', CallInitializeGlobals, CallGetInstanceExport ''main'']"
proof -
  note h = tokens_after_filename
    [of "exampleHost (exampleMain [i32, i32]) (Some exampleShim) (Some [mkValue i32 0])"
      "''wavm-run''" "''-h''" "[''prog.wast'']"]
  note t = tokens_after_filename
    [of "exampleHost (exampleMain [i32, i32]) (Some exampleShim) (Some [mkValue i32 0])"
      "''wavm-run''" "''prog.wast''" "[''-h'']" "''x''"
      "[FunctionObject \<lparr>results = [i32], params = [i32, i32]\<rparr> [Op_end] []]"
      "\<lparr>exportMap = [(''main'', 0)], instanceStartFunction = None,
        instanceDebugName = ''prog.wast''\<rparr>" 0 "[CallGetInstanceExport ''main'']" exampleShim
      "Some exampleShim"]
  note u = tokens_after_filename
    [of "exampleHost (exampleMain [i32, i32]) (Some exampleShim) (Some [mkValue i32 0])"
      "''wavm-run''" "''prog.wast''" "[''x'']" "''--help''"]
  note z = tokens_after_filename
    [of "exampleHost (exampleMain []) (Some exampleShim) (Some [mkValue i32 0])"
      "''wavm-run''" "''prog.wast''" "[''-h'']" "''x''"
      "[FunctionObject \<lparr>results = [i32], params = []\<rparr> [Op_end] []]"
      "\<lparr>exportMap = [(''main'', 0)], instanceStartFunction = None,
        instanceDebugName = ''prog.wast''\<rparr>" 0 "[CallGetInstanceExport ''main'']" exampleShim
      "Some exampleShim"]
  note o = tokens_after_filename
    [of "exampleHost (exampleMain [i32]) (Some exampleShim) (Some [mkValue i32 0])"
      "''wavm-run''" "''prog.wast''" "[''-h'']" "''x''"
      "[FunctionObject \<lparr>results = [i32], params = [i32]\<rparr> [Op_end] []]"
      "\<lparr>exportMap = [(''main'', 0)], instanceStartFunction = None,
        instanceDebugName = ''prog.wast''\<rparr>" 0 "[CallGetInstanceExport ''main'']" exampleShim
      "Some exampleShim"]
  from h t u z o show ?thesis
    by (simp add: lookup_exampleMain params_exampleMain run_exampleMain after_simps
        exampleHost_simps)
qed

section \<open>Import resolution and linking\<close>

lemma isSubtype_refl: "kind t \<in> closedKinds \<Longrightarrow> isSubtype t t"
  by (cases t) (simp_all add: closedKinds_def isSubset_def)

lemma getStubObject_stub:
  assumes "kind t \<in> closedKinds"
  shows "\<exists>stub. getStubObject this exportName t =
           Inr (Some (length (compartment this)), compartment this @ [stub])
         \<and> objectType stub = t"
proof (cases t)
  case (ExternFunction functionType)
  then show ?thesis by (simp add: getStubObject_function)
next
  case ExternInvalid
  with assms show ?thesis by (simp add: closedKinds_def)
qed (simp_all add: getStubObject_def createMemory_def createTable_def createGlobal_def
      createExceptionType_def allocate_def)

lemma resolve_found:
  "moduleNameToInstanceMap this moduleName = Some namedInstance \<Longrightarrow>
   getInstanceExport namedInstance exportName = Some object \<Longrightarrow>
   resolve this moduleName exportName t =
     (if isA (compartment this) object t
      then Inr \<lparr>resolveReturned = True, outObject = Some object, resolverAfter = this,
                resolveOutput = []\<rparr>
      else Inr \<lparr>resolveReturned = False, outObject = Some object, resolverAfter = this,
                resolveOutput =
                  [OutString ''Resolved import %s.%s to a %s, but was expecting %s\<newline>'',
                   OutString moduleName, OutString exportName,
                   OutType (getObjectType (compartment this) object), OutType t]\<rparr>)"
  by (simp add: resolve_def)

lemma resolve_absent:
  "moduleNameToInstanceMap this moduleName = None
   \<or> (\<exists>inst. moduleNameToInstanceMap this moduleName = Some inst
              \<and> getInstanceExport inst exportName = None) \<Longrightarrow>
   resolve this moduleName exportName t =
     (case getStubObject this exportName t of
        Inl a \<Rightarrow> Inl a
      | Inr (object, c') \<Rightarrow>
          Inr \<lparr>resolveReturned = True, outObject = object,
               resolverAfter = this\<lparr>compartment := c'\<rparr>, resolveOutput = []\<rparr>)"
  by (auto simp: resolve_def)

lemma resolve_grows:
  assumes "resolve this moduleName exportName t = Inr r"
  shows "moduleNameToInstanceMap (resolverAfter r) = moduleNameToInstanceMap this
         \<and> (\<exists>xs. compartment (resolverAfter r) = compartment this @ xs)"
proof (cases "kind t \<in> closedKinds")
  case True
  from getStubObject_stub [OF True, of this exportName] obtain stub where
    "getStubObject this exportName t =
       Inr (Some (length (compartment this)), compartment this @ [stub])"
    by blast
  with assms show ?thesis
    by (auto simp: resolve_def split: option.splits if_splits)
next
  case False
  then have "t = ExternInvalid"
    by (cases t) (simp_all add: closedKinds_def)
  with assms show ?thesis
    by (auto simp: resolve_def getStubObject_def split: option.splits if_splits)
qed

lemma isA_live:
  "lookupObject c object = Some obj \<Longrightarrow> isA (c @ xs) object t = isSubtype (objectType obj) t"
  by (simp add: isA_def lookupObject_append_Some)

lemma linkImports_missing_subset:
  "linkImports resolver (imp # imps) = Inr l \<Longrightarrow>
   \<exists>r l'. resolve resolver (importModuleName imp) (importExportName imp) (importType imp) = Inr r
        \<and> linkImports (resolverAfter r) imps = Inr l'
        \<and> set (linkMissing l') \<subseteq> set (linkMissing l)
        \<and> (\<not> resolveReturned r \<longrightarrow> imp \<in> set (linkMissing l) \<and> hd (linkResolved l) = None)
        \<and> (resolveReturned r \<longrightarrow> hd (linkResolved l) = outObject r)"
  by (auto split: sum.splits if_splits)

lemma linkImports_mismatch_missing:
  "imp \<in> set imps \<Longrightarrow>
   moduleNameToInstanceMap resolver (importModuleName imp) = Some inst \<Longrightarrow>
   getInstanceExport inst (importExportName imp) = Some object \<Longrightarrow>
   lookupObject (compartment resolver) object = Some obj \<Longrightarrow>
   \<not> isSubtype (objectType obj) (importType imp) \<Longrightarrow>
   linkImports resolver imps = Inr l \<Longrightarrow>
   imp \<in> set (linkMissing l)"
proof (induction imps arbitrary: resolver l)
  case Nil
  then show ?case by simp
next
  case (Cons i imps)
  from linkImports_missing_subset [OF Cons.prems(6)] obtain r l' where
    r: "resolve resolver (importModuleName i) (importExportName i) (importType i) = Inr r"
    and l': "linkImports (resolverAfter r) imps = Inr l'"
    and sub: "set (linkMissing l') \<subseteq> set (linkMissing l)"
    and miss: "\<not> resolveReturned r \<longrightarrow> i \<in> set (linkMissing l)"
    by blast
  show ?case
  proof (cases "imp = i")
    case True
    from Cons.prems(4) have "isA (compartment resolver) object (importType imp)
        = isSubtype (objectType obj) (importType imp)"
      using isA_live [of "compartment resolver" object obj "[]"] by simp
    with Cons.prems(5) have "\<not> isA (compartment resolver) object (importType imp)"
      by simp
    with r True Cons.prems(2,3) have "\<not> resolveReturned r"
      by (auto simp: resolve_found)
    with miss True show ?thesis by simp
  next
    case False
    with Cons.prems(1) have in_tl: "imp \<in> set imps" by simp
    from resolve_grows [OF r] obtain xs where
      m: "moduleNameToInstanceMap (resolverAfter r) = moduleNameToInstanceMap resolver"
      and c: "compartment (resolverAfter r) = compartment resolver @ xs"
      by blast
    from Cons.prems(4) c have live: "lookupObject (compartment (resolverAfter r)) object = Some obj"
      by (simp add: lookupObject_append_Some)
    from Cons.IH [OF in_tl _ Cons.prems(3) live Cons.prems(5) l'] m Cons.prems(2)
    have "imp \<in> set (linkMissing l')" by simp
    with sub show ?thesis by blast
  qed
qed

lemma linkModule_mismatch_fails:
  assumes "imp \<in> set (irImports irModule)"
    and "moduleNameToInstanceMap resolver (importModuleName imp) = Some inst"
    and "getInstanceExport inst (importExportName imp) = Some object"
    and "lookupObject (compartment resolver) object = Some obj"
    and "\<not> isSubtype (objectType obj) (importType imp)"
    and "linkModule irModule resolver = Inr (linkResult, resolver', out)"
  shows "\<not> success linkResult \<and> imp \<in> set (missingImports linkResult)"
proof -
  from assms(6) obtain l where l: "linkImports resolver (irImports irModule) = Inr l"
    and res: "linkResult = \<lparr>resolvedImports = linkResolved l, missingImports = linkMissing l,
                success = (linkMissing l = [])\<rparr>"
    by (auto simp: linkModule_def split: sum.splits)
  from linkImports_mismatch_missing [OF assms(1-5) l] have "imp \<in> set (linkMissing l)" .
  with res show ?thesis by auto
qed

lemma run_link_failure:
  assumes "loadModule H name = (Some irModule, out)"
    and "emscriptenInstantiate H createCompartment irModule = (shim, c1)"
    and "linkModule irModule
           (registerShim (RootResolver_new createCompartment\<lparr>compartment := c1\<rparr>) shim)
         = Inr (linkResult, resolver', lout)"
    and "\<not> success linkResult"
  shows "run H \<lparr>filename = Some name, args = as\<rparr> =
     stop (Inr EXIT_FAILURE)
       (out @ lout @ [OutString ''Failed to link module:\<newline>'']
        @ concat (map missingImportOutput (missingImports linkResult)))
       [CallLoadModule name, CallCompileModule, CallEmscriptenInstantiate, CallLinkModule]"
  using assms by (simp add: run_def)

lemma exampleResolver_simps:
  "compartment exampleResolver = exampleShimObjects"
  "moduleNameToInstanceMap exampleResolver ''env'' = Some (exampleInstance [(''memory'', 0)])"
  "moduleNameToInstanceMap exampleResolver ''sys'' = None"
  by (simp_all add: exampleResolver_def registerShim_def RootResolver_new_def exampleEnvShim_def)

lemma exampleShimObjects_simps:
  "length exampleShimObjects = 1"
  "lookupObject exampleShimObjects 0 =
     Some (MemoryObject \<lparr>memoryIsShared = False, memorySize = \<lparr>sizeMin = 1, sizeMax = 2\<rparr>\<rparr>
             ''memory'')"
  "isA exampleShimObjects 0 exampleMemoryType"
  "\<not> isA exampleShimObjects 0 exampleFunctionType"
  by (simp_all add: exampleShimObjects_def isA_def exampleMemoryType_def exampleFunctionType_def
      isSubset_def)

lemma exampleImporting_link:
  "linkModule (exampleImporting exampleFunctionType) exampleResolver =
     Inr (\<lparr>resolvedImports = [None],
           missingImports = [\<lparr>importModuleName = ''env'', importExportName = ''memory'',
                              importType = exampleFunctionType\<rparr>],
           success = False\<rparr>,
          exampleResolver,
          [OutString ''Resolved import %s.%s to a %s, but was expecting %s\<newline>'',
           OutString ''env'', OutString ''memory'', OutType exampleMemoryType,
           OutType exampleFunctionType])"
  by (simp add: linkModule_def exampleImporting_def emptyIRModule_def resolve_found
      exampleResolver_simps example_exports exampleShimObjects_simps getObjectType_def)
    (simp add: exampleMemoryType_def)

lemma exampleHostWith_simps:
  "loadModule (exampleHostWith objects m shim result) name = (Some m, [])"
  "emscriptenInstantiate (exampleHostWith objects m shim result) c ir = (shim, c @ objects)"
  by (simp_all add: exampleHostWith_def loadModule_def exampleHost_def)

lemma exampleResolver_eq:
  "registerShim (RootResolver_new createCompartment\<lparr>compartment := exampleShimObjects\<rparr>)
     (Some exampleEnvShim) = exampleResolver"
  by (simp add: exampleResolver_def registerShim_def RootResolver_new_def)

text \<open>
  C1. \<open>resolve\<close> is a trichotomy. When the registry maps the module name to an instance
  that exports the name with a compatible type, that very object is bound and \<open>resolve\<close>
  succeeds, leaving the compartment as it is. When the module name is not registered, or
  the instance does not export the name, \<open>resolve\<close> succeeds with a stub: a new object of
  the compartment whose type is exactly the expected one (the expected type being of one
  of the five kinds). When the export exists with an incompatible type, \<open>resolve\<close> fails
  and binds no stub; the linker then reports that import as missing and fails, and
  \<open>run\<close> ends with \<open>EXIT_FAILURE\<close> without instantiating the module.
\<close>

theorem resolve_trichotomy:
  "(moduleNameToInstanceMap this moduleName = Some namedInstance
    \<and> getInstanceExport namedInstance exportName = Some object
    \<and> isA (compartment this) object t \<longrightarrow>
      resolve this moduleName exportName t =
        Inr \<lparr>resolveReturned = True, outObject = Some object, resolverAfter = this,
             resolveOutput = []\<rparr>)
   \<and> ((moduleNameToInstanceMap this moduleName = None
        \<or> (moduleNameToInstanceMap this moduleName = Some namedInstance
            \<and> getInstanceExport namedInstance exportName = None))
       \<and> kind t \<in> closedKinds \<longrightarrow>
      (\<exists>stub.
         resolve this moduleName exportName t =
           Inr \<lparr>resolveReturned = True, outObject = Some (length (compartment this)),
                resolverAfter = this\<lparr>compartment := compartment this @ [stub]\<rparr>,
                resolveOutput = []\<rparr>
         \<and> lookupObject (compartment this) (length (compartment this)) = None
         \<and> lookupObject (compartment this @ [stub]) (length (compartment this)) = Some stub
         \<and> objectType stub = t
         \<and> isA (compartment this @ [stub]) (length (compartment this)) t))
   \<and> (moduleNameToInstanceMap this moduleName = Some namedInstance
       \<and> getInstanceExport namedInstance exportName = Some object
       \<and> \<not> isA (compartment this) object t \<longrightarrow>
      (\<exists>out.
         resolve this moduleName exportName t =
           Inr \<lparr>resolveReturned = False, outObject = Some object, resolverAfter = this,
                resolveOutput = out\<rparr>))
   \<and> (imp \<in> set (irImports irModule)
       \<and> moduleNameToInstanceMap resolver (importModuleName imp) = Some inst
       \<and> getInstanceExport inst (importExportName imp) = Some obj
       \<and> lookupObject (compartment resolver) obj = Some actual
       \<and> \<not> isSubtype (objectType actual) (importType imp)
       \<and> linkModule irModule resolver = Inr (linkResult, resolver', lout) \<longrightarrow>
      \<not> success linkResult \<and> imp \<in> set (missingImports linkResult))
   \<and> (loadModule H name = (Some m, out)
       \<and> linkModule m
           (registerShim
              (RootResolver_new createCompartment
                 \<lparr>compartment := snd (emscriptenInstantiate H createCompartment m)\<rparr>)
              (fst (emscriptenInstantiate H createCompartment m)))
           = Inr (failed, resolverF, outF)
       \<and> \<not> success failed \<longrightarrow>
      outcome (run H \<lparr>filename = Some name, args = as\<rparr>) = Inr EXIT_FAILURE
      \<and> (\<forall>n. CallInstantiateModule n \<notin> set (events (run H \<lparr>filename = Some name, args = as\<rparr>))))"
proof (intro conjI impI)
  assume "moduleNameToInstanceMap this moduleName = Some namedInstance
    \<and> getInstanceExport namedInstance exportName = Some object
    \<and> isA (compartment this) object t"
  then show "resolve this moduleName exportName t =
        Inr \<lparr>resolveReturned = True, outObject = Some object, resolverAfter = this,
             resolveOutput = []\<rparr>"
    by (simp add: resolve_found)
next
  assume a: "(moduleNameToInstanceMap this moduleName = None
        \<or> (moduleNameToInstanceMap this moduleName = Some namedInstance
            \<and> getInstanceExport namedInstance exportName = None))
       \<and> kind t \<in> closedKinds"
  then have k: "kind t \<in> closedKinds" by simp
  from getStubObject_stub [OF k, of this exportName] obtain stub where
    g: "getStubObject this exportName t =
          Inr (Some (length (compartment this)), compartment this @ [stub])"
    and ty: "objectType stub = t"
    by blast
  from a have "moduleNameToInstanceMap this moduleName = None
     \<or> (\<exists>inst. moduleNameToInstanceMap this moduleName = Some inst
              \<and> getInstanceExport inst exportName = None)"
    by blast
  then have r: "resolve this moduleName exportName t =
           Inr \<lparr>resolveReturned = True, outObject = Some (length (compartment this)),
                resolverAfter = this\<lparr>compartment := compartment this @ [stub]\<rparr>,
                resolveOutput = []\<rparr>"
    by (simp add: resolve_absent g)
  have "isA (compartment this @ [stub]) (length (compartment this)) t"
    by (simp add: isA_def lookupObject_append_length ty isSubtype_refl [OF k])
  with r ty show "\<exists>stub.
         resolve this moduleName exportName t =
           Inr \<lparr>resolveReturned = True, outObject = Some (length (compartment this)),
                resolverAfter = this\<lparr>compartment := compartment this @ [stub]\<rparr>,
                resolveOutput = []\<rparr>
         \<and> lookupObject (compartment this) (length (compartment this)) = None
         \<and> lookupObject (compartment this @ [stub]) (length (compartment this)) = Some stub
         \<and> objectType stub = t
         \<and> isA (compartment this @ [stub]) (length (compartment this)) t"
    by (intro exI [of _ stub]) (simp add: lookupObject_length lookupObject_append_length)
next
  assume "moduleNameToInstanceMap this moduleName = Some namedInstance
       \<and> getInstanceExport namedInstance exportName = Some object
       \<and> \<not> isA (compartment this) object t"
  then show "\<exists>out.
         resolve this moduleName exportName t =
           Inr \<lparr>resolveReturned = False, outObject = Some object, resolverAfter = this,
                resolveOutput = out\<rparr>"
    by (simp add: resolve_found)
next
  assume a: "imp \<in> set (irImports irModule)
       \<and> moduleNameToInstanceMap resolver (importModuleName imp) = Some inst
       \<and> getInstanceExport inst (importExportName imp) = Some obj
       \<and> lookupObject (compartment resolver) obj = Some actual
       \<and> \<not> isSubtype (objectType actual) (importType imp)
       \<and> linkModule irModule resolver = Inr (linkResult, resolver', lout)"
  then have "\<not> success linkResult \<and> imp \<in> set (missingImports linkResult)"
    by (intro linkModule_mismatch_fails [of imp irModule resolver inst obj actual]) simp_all
  then show "\<not> success linkResult" and "imp \<in> set (missingImports linkResult)"
    by simp_all
next
  assume a: "loadModule H name = (Some m, out)
       \<and> linkModule m
           (registerShim
              (RootResolver_new createCompartment
                 \<lparr>compartment := snd (emscriptenInstantiate H createCompartment m)\<rparr>)
              (fst (emscriptenInstantiate H createCompartment m)))
           = Inr (failed, resolverF, outF)
       \<and> \<not> success failed"
  obtain shim c1 where e: "emscriptenInstantiate H createCompartment m = (shim, c1)"
    by (cases "emscriptenInstantiate H createCompartment m")
  from a have l: "loadModule H name = (Some m, out)" and f: "\<not> success failed"
    by simp_all
  from a e have k: "linkModule m
      (registerShim (RootResolver_new createCompartment\<lparr>compartment := c1\<rparr>) shim)
      = Inr (failed, resolverF, outF)"
    by simp
  note r = run_link_failure [OF l e k f, of as]
  show "outcome (run H \<lparr>filename = Some name, args = as\<rparr>) = Inr EXIT_FAILURE"
    by (simp add: r stop_simps)
  show "\<forall>n. CallInstantiateModule n \<notin> set (events (run H \<lparr>filename = Some name, args = as\<rparr>))"
    by (simp add: r stop_simps)
qed

theorem resolve_trichotomy_witness:
  "moduleNameToInstanceMap exampleResolver ''env'' = Some (exampleInstance [(''memory'', 0)])
   \<and> getInstanceExport (exampleInstance [(''memory'', 0)]) ''memory'' = Some 0
   \<and> isA (compartment exampleResolver) 0 exampleMemoryType
   \<and> resolve exampleResolver ''env'' ''memory'' exampleMemoryType =
       Inr \<lparr>resolveReturned = True, outObject = Some 0, resolverAfter = exampleResolver,
            resolveOutput = []\<rparr>
   \<and> moduleNameToInstanceMap exampleResolver ''sys'' = None
   \<and> kind exampleFunctionType \<in> closedKinds
   \<and> (\<exists>stub. resolve exampleResolver ''sys'' ''f'' exampleFunctionType =
         Inr \<lparr>resolveReturned = True, outObject = Some 1,
              resolverAfter = exampleResolver\<lparr>compartment := exampleShimObjects @ [stub]\<rparr>,
              resolveOutput = []\<rparr>
         \<and> objectType stub = exampleFunctionType)
   \<and> getInstanceExport (exampleInstance [(''memory'', 0)]) ''table'' = None
   \<and> (\<exists>stub. resolve exampleResolver ''env'' ''table'' exampleFunctionType =
         Inr \<lparr>resolveReturned = True, outObject = Some 1,
              resolverAfter = exampleResolver\<lparr>compartment := exampleShimObjects @ [stub]\<rparr>,
              resolveOutput = []\<rparr>
         \<and> objectType stub = exampleFunctionType)
   \<and> \<not> isA (compartment exampleResolver) 0 exampleFunctionType
   \<and> (\<exists>out. resolve exampleResolver ''env'' ''memory'' exampleFunctionType =
         Inr \<lparr>resolveReturned = False, outObject = Some 0, resolverAfter = exampleResolver,
              resolveOutput = out\<rparr>)
   \<and> (\<exists>linkResult resolver' lout.
         linkModule (exampleImporting exampleFunctionType) exampleResolver
           = Inr (linkResult, resolver', lout)
         \<and> \<not> success linkResult
         \<and> \<lparr>importModuleName = ''env'', importExportName = ''memory'',
             importType = exampleFunctionType\<rparr> \<in> set (missingImports linkResult))
   \<and> loadModule
        (exampleHostWith exampleShimObjects (exampleImporting exampleFunctionType)
           (Some exampleEnvShim) None) ''prog.wast''
       = (Some (exampleImporting exampleFunctionType), [])
   \<and> outcome (run (exampleHostWith exampleShimObjects (exampleImporting exampleFunctionType)
                      (Some exampleEnvShim) None)
                 \<lparr>filename = Some ''prog.wast'', args = []\<rparr>) = Inr EXIT_FAILURE"
proof -
  let ?imp = "\<lparr>importModuleName = ''env'', importExportName = ''memory'',
               importType = exampleFunctionType\<rparr>"
  let ?H = "exampleHostWith exampleShimObjects (exampleImporting exampleFunctionType)
              (Some exampleEnvShim) None"
  have h1: "moduleNameToInstanceMap exampleResolver ''env'' = Some (exampleInstance [(''memory'', 0)])"
    and h2: "getInstanceExport (exampleInstance [(''memory'', 0)]) ''memory'' = Some 0"
    and h3: "isA (compartment exampleResolver) 0 exampleMemoryType"
    and h4: "moduleNameToInstanceMap exampleResolver ''sys'' = None"
    and h6: "getInstanceExport (exampleInstance [(''memory'', 0)]) ''table'' = None"
    and h7: "\<not> isA (compartment exampleResolver) 0 exampleFunctionType"
    by (simp_all add: exampleResolver_simps example_exports exampleShimObjects_simps)
  have h5: "kind exampleFunctionType \<in> closedKinds"
    by (simp add: exampleFunctionType_def closedKinds_def)
  have h8: "?imp \<in> set (irImports (exampleImporting exampleFunctionType))"
    by (simp add: exampleImporting_def emptyIRModule_def)
  have h9: "lookupObject (compartment exampleResolver) 0 =
      Some (MemoryObject \<lparr>memoryIsShared = False, memorySize = \<lparr>sizeMin = 1, sizeMax = 2\<rparr>\<rparr>
              ''memory'')"
    and h10: "\<not> isSubtype
        (objectType (MemoryObject
           \<lparr>memoryIsShared = False, memorySize = \<lparr>sizeMin = 1, sizeMax = 2\<rparr>\<rparr> ''memory''))
        (importType ?imp)"
    by (simp_all add: exampleResolver_simps exampleShimObjects_simps exampleFunctionType_def)
  note h11 = exampleImporting_link
  have h12: "loadModule ?H ''prog.wast'' = (Some (exampleImporting exampleFunctionType), [])"
    by (simp add: exampleHostWith_simps)
  have h13: "linkModule (exampleImporting exampleFunctionType)
      (registerShim
         (RootResolver_new createCompartment
            \<lparr>compartment := snd (emscriptenInstantiate ?H createCompartment
                                   (exampleImporting exampleFunctionType))\<rparr>)
         (fst (emscriptenInstantiate ?H createCompartment (exampleImporting exampleFunctionType))))
      = Inr (\<lparr>resolvedImports = [None], missingImports = [?imp], success = False\<rparr>,
             exampleResolver,
             [OutString ''Resolved import %s.%s to a %s, but was expecting %s\<newline>'',
              OutString ''env'', OutString ''memory'', OutType exampleMemoryType,
              OutType exampleFunctionType])"
    by (simp add: exampleHostWith_simps createCompartment_def exampleImporting_link
        exampleResolver_eq [unfolded createCompartment_def])
  note a = resolve_trichotomy
    [where this = exampleResolver and moduleName = "''env''" and exportName = "''memory''"
      and namedInstance = "exampleInstance [(''memory'', 0)]" and object = 0
      and t = exampleMemoryType]
  note b = resolve_trichotomy
    [where this = exampleResolver and moduleName = "''sys''" and exportName = "''f''"
      and t = exampleFunctionType]
  note c = resolve_trichotomy
    [where this = exampleResolver and moduleName = "''env''" and exportName = "''table''"
      and namedInstance = "exampleInstance [(''memory'', 0)]" and t = exampleFunctionType]
  note d = resolve_trichotomy
    [where this = exampleResolver and moduleName = "''env''" and exportName = "''memory''"
      and namedInstance = "exampleInstance [(''memory'', 0)]" and object = 0
      and t = exampleFunctionType
      and imp = ?imp and irModule = "exampleImporting exampleFunctionType"
      and resolver = exampleResolver and inst = "exampleInstance [(''memory'', 0)]"
      and obj = 0
      and actual = "MemoryObject
           \<lparr>memoryIsShared = False, memorySize = \<lparr>sizeMin = 1, sizeMax = 2\<rparr>\<rparr> ''memory''"
      and linkResult = "\<lparr>resolvedImports = [None], missingImports = [?imp], success = False\<rparr>"
      and resolver' = exampleResolver
      and lout = "[OutString ''Resolved import %s.%s to a %s, but was expecting %s\<newline>'',
           OutString ''env'', OutString ''memory'', OutType exampleMemoryType,
           OutType exampleFunctionType]"
      and H = ?H and name = "''prog.wast''" and m = "exampleImporting exampleFunctionType"
      and out = "[]"
      and failed = "\<lparr>resolvedImports = [None], missingImports = [?imp], success = False\<rparr>"
      and resolverF = exampleResolver
      and outF = "[OutString ''Resolved import %s.%s to a %s, but was expecting %s\<newline>'',
           OutString ''env'', OutString ''memory'', OutType exampleMemoryType,
           OutType exampleFunctionType]"
      and as = "[]"]
  from a h1 h2 h3 have r1: "resolve exampleResolver ''env'' ''memory'' exampleMemoryType =
       Inr \<lparr>resolveReturned = True, outObject = Some 0, resolverAfter = exampleResolver,
            resolveOutput = []\<rparr>"
    by blast
  from b h4 h5 have r2: "\<exists>stub. resolve exampleResolver ''sys'' ''f'' exampleFunctionType =
         Inr \<lparr>resolveReturned = True, outObject = Some 1,
              resolverAfter = exampleResolver\<lparr>compartment := exampleShimObjects @ [stub]\<rparr>,
              resolveOutput = []\<rparr>
         \<and> objectType stub = exampleFunctionType"
    by (simp add: exampleResolver_simps exampleShimObjects_simps) blast
  from c h1 h5 h6 have r3: "\<exists>stub. resolve exampleResolver ''env'' ''table'' exampleFunctionType =
         Inr \<lparr>resolveReturned = True, outObject = Some 1,
              resolverAfter = exampleResolver\<lparr>compartment := exampleShimObjects @ [stub]\<rparr>,
              resolveOutput = []\<rparr>
         \<and> objectType stub = exampleFunctionType"
    by (simp add: exampleResolver_simps exampleShimObjects_simps) blast
  from d h1 h2 h7 have r4: "\<exists>out. resolve exampleResolver ''env'' ''memory'' exampleFunctionType =
         Inr \<lparr>resolveReturned = False, outObject = Some 0, resolverAfter = exampleResolver,
              resolveOutput = out\<rparr>"
    by blast
  from d h8 h1 h2 h9 h10 h11 have r5: "\<exists>linkResult resolver' lout.
         linkModule (exampleImporting exampleFunctionType) exampleResolver
           = Inr (linkResult, resolver', lout)
         \<and> \<not> success linkResult
         \<and> ?imp \<in> set (missingImports linkResult)"
    by simp
  from d h12 h13 have r6: "outcome (run ?H \<lparr>filename = Some ''prog.wast'', args = []\<rparr>)
      = Inr EXIT_FAILURE"
    by simp
  from h1 h2 h3 r1 h4 h5 r2 h6 r3 h7 r4 r5 h12 r6 show ?thesis
    by blast
qed

section \<open>The stages of a run\<close>

lemma enterMain_ordered:
  "sorted (map stageRank (events (enterMain H name options shim c inst)))
   \<and> (\<forall>e \<in> set (events (enterMain H name options shim c inst)). 7 \<le> stageRank e)"
proof -
  obtain r ls where l: "lookupEntryPoint c inst = (r, ls)"
    by (cases "lookupEntryPoint c inst")
  from lookupEntryPoint_events [OF l] show ?thesis
    using l
    by (auto simp: enterMain_def after_simps stop_simps events_invokeEntry Let_def
        split: option.splits)
qed

lemma initializeAndEnter_ordered:
  "sorted (map stageRank (events (initializeAndEnter H name options irModule shim c inst)))
   \<and> (\<forall>e \<in> set (events (initializeAndEnter H name options irModule shim c inst)).
        6 \<le> stageRank e)
   \<and> CallInitializeGlobals \<in> set (events (initializeAndEnter H name options irModule shim c inst))"
proof (cases "initializeGlobals H c irModule inst")
  case None
  then show ?thesis by (simp add: initializeAndEnter_def stop_simps)
next
  case (Some c')
  from enterMain_ordered [of H name options shim c' inst] Some show ?thesis
    by (fastforce simp: initializeAndEnter_def after_simps)
qed

lemma runInstance_ordered:
  "sorted (map stageRank (events (runInstance H name options irModule shim c inst)))
   \<and> (\<forall>e \<in> set (events (runInstance H name options irModule shim c inst)). 5 \<le> stageRank e)
   \<and> (CallGetInstanceExport n \<in> set (events (runInstance H name options irModule shim c inst))
        \<longrightarrow> CallInitializeGlobals
              \<in> set (events (runInstance H name options irModule shim c inst)))"
proof (cases "getStartFunction inst")
  case None
  from initializeAndEnter_ordered [of H name options irModule shim c inst] None show ?thesis
    by (fastforce simp: runInstance_def)
next
  case (Some f)
  show ?thesis
  proof (cases "invokeFunctionChecked H c f []")
    case None
    with Some show ?thesis by (simp add: runInstance_def stop_simps)
  next
    case (Some r)
    obtain rs c' where r: "r = (rs, c')" by (cases r)
    from initializeAndEnter_ordered [of H name options irModule shim c' inst]
      \<open>getStartFunction inst = Some f\<close> Some r
    show ?thesis
      by (fastforce simp: runInstance_def after_simps)
  qed
qed

lemma runInstance_initializes:
  "getStartFunction inst = None
   \<or> (\<exists>f r. getStartFunction inst = Some f \<and> invokeFunctionChecked H c f [] = Some r) \<Longrightarrow>
   CallInitializeGlobals \<in> set (events (runInstance H name options irModule shim c inst))"
  using initializeAndEnter_ordered
  by (auto simp: runInstance_def after_simps)

lemma runInstance_sorted:
  "sorted (map stageRank (events (runInstance H name options irModule shim c inst)))"
  using runInstance_ordered by blast

lemma runInstance_rank:
  "e \<in> set (events (runInstance H name options irModule shim c inst)) \<Longrightarrow> 5 \<le> stageRank e"
  using runInstance_ordered by blast

lemma runInstance_lookup:
  "CallGetInstanceExport n \<in> set (events (runInstance H name options irModule shim c inst)) \<Longrightarrow>
   CallInitializeGlobals \<in> set (events (runInstance H name options irModule shim c inst))"
  using runInstance_ordered by blast

lemma run_sorted: "sorted (map stageRank (events (run H options)))"
  by (auto simp: run_def stop_simps after_simps Let_def sorted_append runInstance_sorted
      dest!: runInstance_rank split: option.splits prod.splits sum.splits)

lemma run_lookup:
  "CallGetInstanceExport n \<in> set (events (run H options)) \<Longrightarrow>
   CallInitializeGlobals \<in> set (events (run H options))"
  by (auto simp: run_def stop_simps after_simps Let_def
      dest: runInstance_lookup split: option.splits prod.splits sum.splits if_splits)

text \<open>
  C3, as stated, fails: the global initializers are called on a run whose shim was not
  instantiated.
\<close>

theorem global_initializers_without_shim_counterexample:
  "fst (emscriptenInstantiate (exampleHost (exampleMain []) None (Some [mkValue i32 7]))
          createCompartment (exampleMain [])) = None
   \<and> events (run (exampleHost (exampleMain []) None (Some [mkValue i32 7]))
               \<lparr>filename = Some ''prog.wast'', args = []\<rparr>) =
       [CallLoadModule ''prog.wast'', CallCompileModule, CallEmscriptenInstantiate, CallLinkModule,
        CallInstantiateModule ''prog.wast'', CallInitializeGlobals, CallGetInstanceExport ''main'',
        CallInvokeFunction 0 []]
   \<and> outcome (run (exampleHost (exampleMain []) None (Some [mkValue i32 7]))
                \<lparr>filename = Some ''prog.wast'', args = []\<rparr>) = Inr 7"
  by (simp add: run_exampleMain after_simps exampleHost_simps lookup_exampleMain
      params_exampleMain enterMain_arity0 events_invokeEntry outcome_invokeEntry exitStatus_def
      mkValue_def value_i32_def)

text \<open>
  C3, amended. The calls of a run follow the order of the pipeline, so the global
  initializers come after the call of the start function and before the lookup of the
  entry point; the entry point is never looked up without them; and they are called
  whenever the start function is absent or has returned, whether or not there is a shim.
\<close>

theorem global_initializers_stage:
  "sorted (map stageRank (events (run H options)))
   \<and> (CallGetInstanceExport n \<in> set (events (run H options)) \<longrightarrow>
        CallInitializeGlobals \<in> set (events (run H options)))
   \<and> (getStartFunction moduleInstance = None
       \<or> (\<exists>f r. getStartFunction moduleInstance = Some f
                \<and> invokeFunctionChecked H c f [] = Some r) \<longrightarrow>
        CallInitializeGlobals
          \<in> set (events (runInstance H name options irModule emscriptenInstance c moduleInstance)))"
  using run_sorted run_lookup runInstance_initializes by blast

theorem global_initializers_stage_witness:
  "sorted (map stageRank
     (events (run (exampleHost (exampleMain []) None (Some [mkValue i32 7]))
                \<lparr>filename = Some ''prog.wast'', args = []\<rparr>)))
   \<and> CallGetInstanceExport ''main''
       \<in> set (events (run (exampleHost (exampleMain []) None (Some [mkValue i32 7]))
                         \<lparr>filename = Some ''prog.wast'', args = []\<rparr>))
   \<and> CallInitializeGlobals
       \<in> set (events (run (exampleHost (exampleMain []) None (Some [mkValue i32 7]))
                         \<lparr>filename = Some ''prog.wast'', args = []\<rparr>))
   \<and> getStartFunction exampleStarting = Some 1
   \<and> invokeFunctionChecked (exampleHost (exampleMain []) None (Some [mkValue i32 7]))
        (exampleFunctions []) 1 [] = Some ([mkValue i32 7], exampleFunctions [])
   \<and> CallInitializeGlobals
       \<in> set (events (runInstance (exampleHost (exampleMain []) None (Some [mkValue i32 7]))
                         ''prog.wast'' \<lparr>filename = Some ''prog.wast'', args = []\<rparr>
                         (exampleMain []) None (exampleFunctions []) exampleStarting))"
proof -
  let ?H = "exampleHost (exampleMain []) None (Some [mkValue i32 7])"
  have g: "CallGetInstanceExport ''main''
       \<in> set (events (run ?H \<lparr>filename = Some ''prog.wast'', args = []\<rparr>))"
    by (simp add: run_exampleMain after_simps lookup_exampleMain params_exampleMain
        enterMain_arity0)
  have s: "getStartFunction exampleStarting = Some 1"
    by (simp add: getStartFunction_def exampleStarting_def)
  have i: "invokeFunctionChecked ?H (exampleFunctions []) 1 [] =
      Some ([mkValue i32 7], exampleFunctions [])"
    by (simp add: exampleHost_simps)
  note t = global_initializers_stage
    [of ?H "\<lparr>filename = Some ''prog.wast'', args = []\<rparr>" "''main''" exampleStarting
      "exampleFunctions []" "''prog.wast''" "exampleMain []" None]
  from t g s i show ?thesis
    by blast
qed

end
